theory Spec2Isabelle
  imports Main "HOL-Library.Word" "HOL-Library.Char_ord" "HOL-Library.List_Lexorder"
begin

section \<open>Data model: the structs \<open>Paste\<close> and \<open>User\<close>\<close>

text \<open>
  Go strings are byte sequences and \<open>len\<close> counts bytes, as \<open>length\<close> does on a HOL
  \<open>string\<close>. A \<open>time.Time\<close> is an instant, counted here in nanoseconds; \<open>uint\<close> and
  \<open>int\<close> are the 64-bit machine integers of the build target. A nil pointer field
  (\<open>*time.Time\<close>, \<open>*uint\<close>) is \<open>None\<close>.
\<close>

type_synonym instant = int
type_synonym uint = "64 word"
type_synonym go_int = "64 word"
type_synonym Duration = "64 word"

text \<open>
  The error values of the services are all built by \<open>errors.New(msg)\<close>; callers read only
  the message. An error that the store itself reports (a violated constraint on insert) is
  passed through unchanged and is \<open>StoreError\<close> here.
\<close>

datatype error = New string | StoreError

text \<open>
  \<open>type Paste struct\<close>. The association field \<open>User\<close> is filled only by \<open>Preload\<close> and
  read by no service; it is left out. \<open>DeletedAt\<close> is the \<open>gorm.DeletedAt\<close> column: the
  model is soft-deleted, a deleted row stays in the table with the marker set.
\<close>

record Paste =
  ID :: string
  Title :: string
  Content :: string
  ContentHash :: string
  Language :: string
  IsPrivate :: bool
  Unlisted :: bool
  ExpiresAt :: "instant option"
  UserID :: "uint option"
  CreatedAt :: instant
  UpdatedAt :: instant
  DeletedAt :: "instant option"

text \<open>\<open>type User struct\<close>, without the \<open>Pastes\<close> association.\<close>

record User =
  User_ID :: uint
  Username :: string
  PasswordHash :: string
  User_CreatedAt :: instant

section \<open>The store (gorm on SQLite)\<close>

text \<open>
  A table is the list of its rows. \<open>First\<close> is \<open>ORDER BY id LIMIT 1\<close> over the rows that
  satisfy the \<open>Where\<close> conditions: the row with the least primary key. Text keys compare
  bytewise, which is the order of \<open>HOL-Library.List_Lexorder\<close> over \<open>Char_ord\<close>.
\<close>

fun least_by :: "('a \<Rightarrow> 'k::linorder) \<Rightarrow> 'a list \<Rightarrow> 'a option" where
  "least_by key [] = None"
| "least_by key (r # rs) =
     (case least_by key rs of
        None \<Rightarrow> Some r
      | Some q \<Rightarrow> if key q < key r then Some q else Some r)"

text \<open>
  Every query and every update or delete on a model with a \<open>gorm.DeletedAt\<close> field carries
  the condition \<open>deleted_at IS NULL\<close>.
\<close>

definition live :: "Paste \<Rightarrow> bool" where
  "live p \<longleftrightarrow> DeletedAt p = None"

definition First :: "(Paste \<Rightarrow> bool) \<Rightarrow> Paste list \<Rightarrow> Paste option" where
  "First cond rows = least_by ID (filter (\<lambda>p. cond p \<and> live p) rows)"

text \<open>
  \<open>db.Create(paste)\<close>: the insert fails when the primary key is taken (by any row, deleted
  or not). A zero field with a \<open>default:\<close> tag is written, and set in the struct, as its
  default (\<open>Language\<close>: \<open>'text'\<close>; the defaults of \<open>Title\<close>, \<open>IsPrivate\<close> and \<open>Unlisted\<close> are
  their zero values); \<open>autoCreateTime\<close> and \<open>autoUpdateTime\<close> stamp the current time. All
  clock reads of one call are one instant \<open>now\<close>.
\<close>

definition db_Create :: "instant \<Rightarrow> Paste \<Rightarrow> Paste list \<Rightarrow> error + Paste \<times> Paste list" where
  "db_Create now p rows =
     (if ID p \<in> set (map ID rows) then Inl StoreError
      else
        let p' = p\<lparr>Language := (if Language p = [] then ''text'' else Language p),
                   CreatedAt := now, UpdatedAt := now\<rparr>
        in Inr (p', rows @ [p']))"

text \<open>
  \<open>db.Save(&paste)\<close> of a loaded row: \<open>UPDATE\<close> of all columns of the live row with the
  struct's primary key.
\<close>

definition db_Save :: "Paste \<Rightarrow> Paste list \<Rightarrow> Paste list" where
  "db_Save p rows = map (\<lambda>r. if ID r = ID p \<and> live r then p else r) rows"

text \<open>
  \<open>db.Where(cond).Delete(&Paste{})\<close> and \<open>db.Delete(&paste)\<close>: on this model gorm issues
  \<open>UPDATE pastes SET deleted_at = now WHERE cond AND deleted_at IS NULL\<close>. The rows
  affected are the live rows that satisfy the condition.
\<close>

definition db_Delete :: "instant \<Rightarrow> (Paste \<Rightarrow> bool) \<Rightarrow> Paste list \<Rightarrow> Paste list" where
  "db_Delete now cond rows =
     map (\<lambda>r. if cond r \<and> live r then r\<lparr>DeletedAt := Some now\<rparr> else r) rows"

definition RowsAffected :: "(Paste \<Rightarrow> bool) \<Rightarrow> Paste list \<Rightarrow> nat" where
  "RowsAffected cond rows = length (filter (\<lambda>r. cond r \<and> live r) rows)"

section \<open>hash.go and paste.go\<close>

text \<open>
  \<open>computeFileHash\<close> formats the first 16 bytes of the MD5 sum with \<open>%x\<close>. The digest
  function of \<open>crypto/md5\<close> is the parameter \<open>md5\<close>. Reading from and seeking in a
  \<open>bytes.Reader\<close> cannot fail, so on the paste service's calls the error result is nil.
\<close>

definition hexdigit :: "nat \<Rightarrow> char" where
  "hexdigit n = ''0123456789abcdef'' ! n"

definition sprintf_x :: "string \<Rightarrow> string" where
  "sprintf_x bs =
     concat (map (\<lambda>b. [hexdigit (of_char b div 16), hexdigit (of_char b mod 16)]) bs)"

definition computeFileHash :: "(string \<Rightarrow> string) \<Rightarrow> string \<Rightarrow> string" where
  "computeFileHash md5 content = sprintf_x (take 16 (md5 content))"

text \<open>
  \<open>randfilename\<close>: \<open>rnd index\<close> is the raw output of the freshly seeded generator at the
  \<open>index\<close>-th draw, and \<open>rand.Intn(n)\<close> maps it into \<open>[0, n)\<close>.
\<close>

definition letterRunes :: string where
  "letterRunes = ''abcdefghijklmnopqrstuvwxyzABCDEFGHIJKLMNOPQRSTUVWXYZ''"

definition Intn :: "nat \<Rightarrow> nat \<Rightarrow> nat" where
  "Intn raw n = raw mod n"

definition randfilename :: "(nat \<Rightarrow> nat) \<Rightarrow> nat \<Rightarrow> string \<Rightarrow> string" where
  "randfilename rnd len extension =
     map (\<lambda>index. letterRunes ! Intn (rnd index) (length letterRunes)) [0..<len] @ extension"

section \<open>paste_service.go\<close>

text \<open>
  Each method takes the table of pastes as its last argument and, where it writes, returns
  the new table with its result. What a call reads from outside comes first: the digest
  function \<open>md5\<close>, the clock reading \<open>now\<close> and the generator outputs \<open>rnd\<close>.

  \<open>time.Minute\<close> is 60 * 10^9 nanoseconds; \<open>time.Duration(n) * time.Minute\<close> is a product
  of 64-bit integers and wraps. \<open>Time.Add\<close> moves an instant by the signed duration.
\<close>

definition Minute :: Duration where
  "Minute = 60000000000"

definition Add :: "instant \<Rightarrow> Duration \<Rightarrow> instant" where
  "Add t d = t + sint d"

text \<open>
  The struct literal of \<open>CreatePaste\<close> leaves \<open>CreatedAt\<close> and \<open>UpdatedAt\<close> at their zero
  value and the insert stamps them; the record below is written with the stamp.
\<close>

definition CreatePaste ::
  "(string \<Rightarrow> string) \<Rightarrow> instant \<Rightarrow> (nat \<Rightarrow> nat) \<Rightarrow>
   string \<Rightarrow> string \<Rightarrow> string \<Rightarrow> bool \<Rightarrow> bool \<Rightarrow> go_int option \<Rightarrow> uint option \<Rightarrow>
   Paste list \<Rightarrow> error + Paste \<times> Paste list" where
  "CreatePaste md5 now rnd title content language isPrivate unlisted expiresIn userID rows =
     (if length content = 0 then Inl (New ''paste content cannot be empty'')
      else if length content > 10 * 2 ^ 20 then Inl (New ''paste too large (max 10MB)'')
      else if isPrivate \<and> userID = None
        then Inl (New ''must be logged in to create private pastes'')
      else
        let expiresAt =
              (case expiresIn of
                 None \<Rightarrow> None
               | Some n \<Rightarrow> if 0 <s n then Some (Add now (n * Minute)) else None);
            hash = computeFileHash md5 content
        in case First (\<lambda>p. ContentHash p = hash \<and> UserID p = userID) rows of
             Some existingPaste \<Rightarrow> Inr (existingPaste, rows)
           | None \<Rightarrow>
               db_Create now
                 \<lparr>ID = randfilename rnd 8 [], Title = title, Content = content,
                  ContentHash = hash, Language = language, IsPrivate = isPrivate,
                  Unlisted = unlisted, ExpiresAt = expiresAt, UserID = userID,
                  CreatedAt = now, UpdatedAt = now, DeletedAt = None\<rparr>
                 rows)"

definition GetPaste :: "instant \<Rightarrow> string \<Rightarrow> uint option \<Rightarrow> Paste list \<Rightarrow> error + Paste" where
  "GetPaste now pasteID viewerUserID rows =
     (case First (\<lambda>p. ID p = pasteID) rows of
        None \<Rightarrow> Inl (New ''paste not found'')
      | Some paste \<Rightarrow>
          if (case ExpiresAt paste of None \<Rightarrow> False | Some e \<Rightarrow> e < now)
            then Inl (New ''paste not found'')
          else if IsPrivate paste \<and>
                  (viewerUserID = None \<or> UserID paste = None \<or> viewerUserID \<noteq> UserID paste)
            then Inl (New ''paste not found'')
          else Inr paste)"

definition UpdatePaste ::
  "(string \<Rightarrow> string) \<Rightarrow> instant \<Rightarrow> string \<Rightarrow> string \<Rightarrow> string \<Rightarrow> string \<Rightarrow> bool \<Rightarrow> uint \<Rightarrow>
   Paste list \<Rightarrow> error + Paste \<times> Paste list" where
  "UpdatePaste md5 now pasteID title content language unlisted userID rows =
     (case First (\<lambda>p. ID p = pasteID) rows of
        None \<Rightarrow> Inl (New ''paste not found'')
      | Some paste \<Rightarrow>
          if UserID paste = None \<or> UserID paste \<noteq> Some userID
            then Inl (New ''you can only edit your own pastes'')
          else
            let paste' = paste\<lparr>Title := title, Content := content,
                               ContentHash := computeFileHash md5 content,
                               Language := language, Unlisted := unlisted,
                               UpdatedAt := now\<rparr>
            in Inr (paste', db_Save paste' rows))"

definition DeletePaste :: "instant \<Rightarrow> string \<Rightarrow> uint \<Rightarrow> Paste list \<Rightarrow> error + Paste list" where
  "DeletePaste now pasteID userID rows =
     (case First (\<lambda>p. ID p = pasteID) rows of
        None \<Rightarrow> Inl (New ''paste not found'')
      | Some paste \<Rightarrow>
          if UserID paste = None \<or> UserID paste \<noteq> Some userID
            then Inl (New ''you can only delete your own pastes'')
          else Inr (db_Delete now (\<lambda>r. ID r = ID paste) rows))"

text \<open>
  \<open>CleanupExpiredPastes\<close> returns the rows affected and the store's error (nil here).
  Its condition \<open>expires_at < ?\<close> is evaluated by SQLite on text: the driver binds a
  \<open>time.Time\<close> as the text of its wall-clock time followed by its UTC offset, the column
  holds the text written for the expiration instant, and the two are compared bytewise.
  \<open>stamp t\<close> is the text the driver writes for the local time at instant \<open>t\<close>; the order
  on texts is that of \<open>HOL-Library.List_Lexorder\<close> over \<open>Char_ord\<close>.
\<close>

definition CleanupExpiredPastes ::
  "(instant \<Rightarrow> string) \<Rightarrow> instant \<Rightarrow> Paste list \<Rightarrow> nat \<times> Paste list" where
  "CleanupExpiredPastes stamp now rows =
     (let cond = (\<lambda>r. case ExpiresAt r of None \<Rightarrow> False | Some e \<Rightarrow> stamp e < stamp now)
      in (RowsAffected cond rows, db_Delete now cond rows))"

text \<open>
  The step of \<open>AdminService.DeleteUser\<close> that touches the paste table:
  \<open>s.db.Where("user_id = ?", userID).Delete(&Paste{})\<close>.
\<close>

definition DeleteUser_pastes :: "instant \<Rightarrow> uint \<Rightarrow> Paste list \<Rightarrow> Paste list" where
  "DeleteUser_pastes now userID rows = db_Delete now (\<lambda>r. UserID r = Some userID) rows"

section \<open>\<open>AuthService.Login\<close>\<close>

text \<open>
  \<open>User\<close> has no deletion marker, so its queries carry no extra condition.
  \<open>bcrypt.CompareHashAndPassword\<close> is the parameter \<open>compare\<close>: true when it returns nil.
\<close>

definition First_user :: "(User \<Rightarrow> bool) \<Rightarrow> User list \<Rightarrow> User option" where
  "First_user cond users = least_by User_ID (filter cond users)"

definition Login ::
  "(string \<Rightarrow> string \<Rightarrow> bool) \<Rightarrow> string \<Rightarrow> string \<Rightarrow> User list \<Rightarrow> error + User" where
  "Login compare username password users =
     (case First_user (\<lambda>u. Username u = username) users of
        None \<Rightarrow> Inl (New ''invalid username or password'')
      | Some user \<Rightarrow>
          if \<not> compare (PasswordHash user) password
            then Inl (New ''invalid username or password'')
          else Inr user)"

section \<open>Stores the service can be in\<close>

text \<open>
  The paste table starts empty (\<open>AutoMigrate\<close> on a new database) and changes only through
  the calls above. A failed call leaves it as it was.
\<close>

inductive reachable :: "(string \<Rightarrow> string) \<Rightarrow> Paste list \<Rightarrow> bool" for md5 where
  init: "reachable md5 []"
| create:
    "reachable md5 rows \<Longrightarrow>
     CreatePaste md5 now rnd title content language isPrivate unlisted expiresIn userID rows
       = Inr (p, rows') \<Longrightarrow>
     reachable md5 rows'"
| update:
    "reachable md5 rows \<Longrightarrow>
     UpdatePaste md5 now pasteID title content language unlisted userID rows = Inr (p, rows') \<Longrightarrow>
     reachable md5 rows'"
| delete:
    "reachable md5 rows \<Longrightarrow> DeletePaste now pasteID userID rows = Inr rows' \<Longrightarrow>
     reachable md5 rows'"
| cleanup:
    "reachable md5 rows \<Longrightarrow> reachable md5 (snd (CleanupExpiredPastes stamp now rows))"
| delete_user:
    "reachable md5 rows \<Longrightarrow> reachable md5 (DeleteUser_pastes now userID rows)"

text \<open>The primary key constraint of the table, and the privacy invariant of the data model.\<close>

definition pk_unique :: "Paste list \<Rightarrow> bool" where
  "pk_unique rows \<longleftrightarrow> distinct (map ID rows)"

definition private_has_owner :: "Paste list \<Rightarrow> bool" where
  "private_has_owner rows \<longleftrightarrow> (\<forall>p \<in> set rows. IsPrivate p \<longrightarrow> UserID p \<noteq> None)"

text \<open>A paste is expired at an instant when its expiration instant lies before it.\<close>

definition expired :: "instant \<Rightarrow> Paste \<Rightarrow> bool" where
  "expired now p \<longleftrightarrow> (case ExpiresAt p of None \<Rightarrow> False | Some e \<Rightarrow> e < now)"

text \<open>The rows that the condition of the sweep selects.\<close>

definition sweeps :: "(instant \<Rightarrow> string) \<Rightarrow> instant \<Rightarrow> Paste \<Rightarrow> bool" where
  "sweeps stamp now p \<longleftrightarrow> (case ExpiresAt p of None \<Rightarrow> False | Some e \<Rightarrow> stamp e < stamp now)"

text \<open>The three messages with which \<open>CreatePaste\<close> rejects its input.\<close>

definition ValidationError :: "error \<Rightarrow> bool" where
  "ValidationError e \<longleftrightarrow>
     e = New ''paste content cannot be empty'' \<or>
     e = New ''paste too large (max 10MB)'' \<or>
     e = New ''must be logged in to create private pastes''"

text \<open>The deduplication query of \<open>CreatePaste\<close>, and its three input checks.\<close>

abbreviation dedup :: "(string \<Rightarrow> string) \<Rightarrow> string \<Rightarrow> uint option \<Rightarrow> Paste list \<Rightarrow> Paste option" where
  "dedup md5 content userID rows \<equiv>
     First (\<lambda>p. ContentHash p = computeFileHash md5 content \<and> UserID p = userID) rows"

definition passes_validation :: "string \<Rightarrow> bool \<Rightarrow> uint option \<Rightarrow> bool" where
  "passes_validation content isPrivate userID \<longleftrightarrow>
     content \<noteq> [] \<and> length content \<le> 10 * 2 ^ 20 \<and> \<not> (isPrivate \<and> userID = None)"

section \<open>Sample rows\<close>

text \<open>
  Rows and parameters for running the model on concrete inputs: a stand-in digest (the
  identity, so the fingerprint is the hexadecimal form of the first 16 content bytes), two
  generator outputs, and a row as \<open>CreatePaste\<close> stores it at instant \<open>0\<close>.
\<close>

definition sample_md5 :: "string \<Rightarrow> string" where
  "sample_md5 s = s"

definition sample_rnd :: "nat \<Rightarrow> nat" where
  "sample_rnd i = i"

definition sample_rnd' :: "nat \<Rightarrow> nat" where
  "sample_rnd' i = 7 * i + 30"

definition sample_row :: "string \<Rightarrow> string \<Rightarrow> bool \<Rightarrow> instant option \<Rightarrow> uint option \<Rightarrow> Paste" where
  "sample_row pasteID content isPrivate expiresAt userID =
     \<lparr>ID = pasteID, Title = [], Content = content,
      ContentHash = computeFileHash sample_md5 content, Language = ''text'',
      IsPrivate = isPrivate, Unlisted = False, ExpiresAt = expiresAt, UserID = userID,
      CreatedAt = 0, UpdatedAt = 0, DeletedAt = None\<rparr>"

text \<open>
  Four instants of 27 October 2024, in nanoseconds since the Unix epoch: 00:40, 00:50,
  01:10 and 01:20 UTC. \<open>utc_stamp\<close> holds the texts the driver writes for them on a server
  whose local time is UTC. \<open>berlin_stamp\<close> holds the texts on a server in the zone
  Europe/Berlin, which goes from UTC+2 back to UTC+1 at 01:00 UTC of that day.
\<close>

definition at_0040 :: instant where
  "at_0040 = 1729989600000000000"

definition at_0050 :: instant where
  "at_0050 = 1729990200000000000"

definition at_0110 :: instant where
  "at_0110 = 1729991400000000000"

definition at_0120 :: instant where
  "at_0120 = 1729992000000000000"

definition utc_stamp :: "instant \<Rightarrow> string" where
  "utc_stamp t =
     (if t = at_0040 then ''2024-10-27 00:40:00+00:00''
      else if t = at_0050 then ''2024-10-27 00:50:00+00:00''
      else if t = at_0110 then ''2024-10-27 01:10:00+00:00''
      else if t = at_0120 then ''2024-10-27 01:20:00+00:00''
      else [])"

definition berlin_stamp :: "instant \<Rightarrow> string" where
  "berlin_stamp t =
     (if t = at_0040 then ''2024-10-27 02:40:00+02:00''
      else if t = at_0050 then ''2024-10-27 02:50:00+02:00''
      else if t = at_0110 then ''2024-10-27 02:10:00+01:00''
      else if t = at_0120 then ''2024-10-27 02:20:00+01:00''
      else [])"

section \<open>Basic facts about the store\<close>

lemma least_by_None_iff: "least_by key rs = None \<longleftrightarrow> rs = []"
  by (induction rs) (auto split: option.splits)

lemma least_by_mem: "least_by key rs = Some r \<Longrightarrow> r \<in> set rs"
  by (induction rs arbitrary: r) (auto split: option.splits if_splits)

lemma least_by_single: "least_by key [r] = Some r"
  by simp

lemma First_SomeD:
  assumes "First cond rows = Some p"
  shows "p \<in> set rows" and "cond p" and "live p"
  using least_by_mem [of ID "filter (\<lambda>p. cond p \<and> live p) rows" p] assms
  by (auto simp: First_def)

lemma First_None_iff: "First cond rows = None \<longleftrightarrow> (\<forall>r \<in> set rows. \<not> (cond r \<and> live r))"
  by (simp add: First_def least_by_None_iff filter_empty_conv)

lemma filter_key_distinct:
  "distinct (map f xs) \<Longrightarrow> x \<in> set xs \<Longrightarrow> filter (\<lambda>y. f y = f x) xs = [x]"
proof (induction xs)
  case Nil
  then show ?case by simp
next
  case (Cons a xs)
  show ?case
  proof (cases "a = x")
    case True
    with Cons.prems have "f x \<notin> f ` set xs" by simp
    then have "\<forall>y \<in> set xs. f y \<noteq> f x" by (metis imageI)
    then have "filter (\<lambda>y. f y = f x) xs = []" by (simp add: filter_empty_conv)
    with True show ?thesis by simp
  next
    case False
    with Cons.prems have "x \<in> set xs" and "f a \<noteq> f x" by auto
    with Cons show ?thesis by simp
  qed
qed

lemma First_by_ID:
  assumes "pk_unique rows" and "p \<in> set rows"
  shows "First (\<lambda>r. ID r = ID p) rows = (if live p then Some p else None)"
proof (cases "live p")
  case True
  have "filter (\<lambda>r. ID r = ID p \<and> live r) rows
          = filter live (filter (\<lambda>r. ID r = ID p) rows)"
    by (simp add: conj_commute)
  also have "\<dots> = [p]"
    using assms True by (simp add: filter_key_distinct pk_unique_def)
  finally show ?thesis using True by (simp add: First_def)
next
  case False
  have "\<forall>r \<in> set rows. \<not> (ID r = ID p \<and> live r)"
  proof
    fix r assume "r \<in> set rows"
    show "\<not> (ID r = ID p \<and> live r)"
    proof
      assume h: "ID r = ID p \<and> live r"
      with assms \<open>r \<in> set rows\<close> have "r = p"
        by (auto simp: pk_unique_def distinct_map dest: inj_onD)
      with h False show False by simp
    qed
  qed
  with False show ?thesis by (simp add: First_None_iff)
qed

lemma First_absent: "pasteID \<notin> ID ` set rows \<Longrightarrow> First (\<lambda>r. ID r = pasteID) rows = None"
  by (auto simp: First_None_iff)

section \<open>What a successful call did\<close>

lemma CreatePaste_hit:
  assumes "passes_validation content isPrivate userID"
    and "dedup md5 content userID rows = Some e"
  shows "CreatePaste md5 now rnd title content language isPrivate unlisted expiresIn userID rows
           = Inr (e, rows)"
  using assms by (auto simp: CreatePaste_def passes_validation_def)

lemma CreatePaste_cases:
  assumes "CreatePaste md5 now rnd title content language isPrivate unlisted expiresIn userID rows
             = Inr (p, rows')"
  obtains
    (hit) "passes_validation content isPrivate userID"
      and "dedup md5 content userID rows = Some p" and "rows' = rows"
  | (miss) "passes_validation content isPrivate userID"
      and "dedup md5 content userID rows = None"
      and "ID p \<notin> ID ` set rows" and "rows' = rows @ [p]"
      and "ContentHash p = computeFileHash md5 content" and "UserID p = userID"
      and "IsPrivate p = isPrivate" and "DeletedAt p = None"
proof (cases "dedup md5 content userID rows")
  case None
  with assms have "passes_validation content isPrivate userID"
    and "ID p \<notin> ID ` set rows" and "rows' = rows @ [p]"
    and "ContentHash p = computeFileHash md5 content" and "UserID p = userID"
    and "IsPrivate p = isPrivate" and "DeletedAt p = None"
    by (auto simp: CreatePaste_def db_Create_def passes_validation_def Let_def
             split: if_splits)
  with None show ?thesis by (rule_tac miss)
next
  case (Some e)
  with assms have "passes_validation content isPrivate userID" and "e = p" and "rows' = rows"
    by (auto simp: CreatePaste_def passes_validation_def Let_def split: if_splits)
  with Some show ?thesis by (rule_tac hit) auto
qed

lemma UpdatePaste_InrD:
  assumes "UpdatePaste md5 now pasteID title content language unlisted userID rows
             = Inr (p', rows')"
  obtains p where "First (\<lambda>r. ID r = pasteID) rows = Some p" and "UserID p = Some userID"
    and "p' = p\<lparr>Title := title, Content := content,
                  ContentHash := computeFileHash md5 content,
                  Language := language, Unlisted := unlisted, UpdatedAt := now\<rparr>"
    and "rows' = db_Save p' rows"
  using assms
  by (auto simp: UpdatePaste_def Let_def split: option.splits if_splits)

lemma DeletePaste_InrD:
  assumes "DeletePaste now pasteID userID rows = Inr rows'"
  obtains p where "First (\<lambda>r. ID r = pasteID) rows = Some p" and "UserID p = Some userID"
    and "rows' = db_Delete now (\<lambda>r. ID r = ID p) rows"
  using assms
  by (auto simp: DeletePaste_def split: option.splits if_splits)

lemma map_ID_db_Save: "map ID (db_Save p rows) = map ID rows"
  by (simp add: db_Save_def)

lemma map_ID_db_Delete: "map ID (db_Delete now cond rows) = map ID rows"
  by (simp add: db_Delete_def)

lemma set_db_Save: "r \<in> set (db_Save p rows) \<Longrightarrow> r = p \<or> r \<in> set rows"
  by (auto simp: db_Save_def split: if_splits)

lemma set_db_Delete:
  "r \<in> set (db_Delete now cond rows) \<Longrightarrow>
     \<exists>q \<in> set rows. r = q \<or> r = q\<lparr>DeletedAt := Some now\<rparr>"
  by (auto simp: db_Delete_def split: if_splits)

section \<open>Invariants of the paste table\<close>

lemma pk_unique_CreatePaste:
  assumes "pk_unique rows"
    and "CreatePaste md5 now rnd title content language isPrivate unlisted expiresIn userID rows
           = Inr (p, rows')"
  shows "pk_unique rows'"
  using assms(2)
proof (cases rule: CreatePaste_cases)
  case hit
  with assms(1) show ?thesis by simp
next
  case miss
  with assms(1) show ?thesis by (simp add: pk_unique_def)
qed

lemma pk_unique_UpdatePaste:
  assumes "pk_unique rows"
    and "UpdatePaste md5 now pasteID title content language unlisted userID rows = Inr (p, rows')"
  shows "pk_unique rows'"
  by (rule UpdatePaste_InrD [OF assms(2)])
     (use assms(1) in \<open>simp add: pk_unique_def map_ID_db_Save\<close>)

lemma pk_unique_DeletePaste:
  assumes "pk_unique rows" and "DeletePaste now pasteID userID rows = Inr rows'"
  shows "pk_unique rows'"
  by (rule DeletePaste_InrD [OF assms(2)])
     (use assms(1) in \<open>simp add: pk_unique_def map_ID_db_Delete\<close>)

lemma reachable_pk_unique: "reachable md5 rows \<Longrightarrow> pk_unique rows"
proof (induction rule: reachable.induct)
  case init
  show ?case by (simp add: pk_unique_def)
next
  case (create rows now rnd title content language isPrivate unlisted expiresIn userID p rows')
  then show ?case by (blast intro: pk_unique_CreatePaste)
next
  case (update rows now pasteID title content language unlisted userID p rows')
  then show ?case by (blast intro: pk_unique_UpdatePaste)
next
  case (delete rows now pasteID userID rows')
  then show ?case by (blast intro: pk_unique_DeletePaste)
next
  case (cleanup rows stamp now)
  then show ?case
    by (simp add: pk_unique_def CleanupExpiredPastes_def Let_def map_ID_db_Delete)
next
  case (delete_user rows now userID)
  then show ?case by (simp add: pk_unique_def DeleteUser_pastes_def map_ID_db_Delete)
qed

lemma private_has_owner_db_Delete:
  "private_has_owner rows \<Longrightarrow> private_has_owner (db_Delete now cond rows)"
  unfolding private_has_owner_def
proof (intro ballI impI)
  fix r
  assume inv: "\<forall>p \<in> set rows. IsPrivate p \<longrightarrow> UserID p \<noteq> None"
    and r: "r \<in> set (db_Delete now cond rows)" and priv: "IsPrivate r"
  from set_db_Delete [OF r] obtain q where q: "q \<in> set rows"
    and "r = q \<or> r = q\<lparr>DeletedAt := Some now\<rparr>" by blast
  then have "IsPrivate q = IsPrivate r" and eq: "UserID q = UserID r" by auto
  with inv q priv have "UserID q \<noteq> None" by blast
  with eq show "UserID r \<noteq> None" by simp
qed

lemma private_has_owner_CreatePaste:
  assumes "private_has_owner rows"
    and "CreatePaste md5 now rnd title content language isPrivate unlisted expiresIn userID rows
           = Inr (p, rows')"
  shows "private_has_owner rows'"
  using assms(2)
proof (cases rule: CreatePaste_cases)
  case hit
  with assms(1) show ?thesis by simp
next
  case miss
  then have "IsPrivate p \<longrightarrow> UserID p \<noteq> None"
    by (auto simp: passes_validation_def)
  with assms(1) miss(4) show ?thesis by (auto simp: private_has_owner_def)
qed

lemma private_has_owner_UpdatePaste:
  assumes "private_has_owner rows"
    and "UpdatePaste md5 now pasteID title content language unlisted userID rows = Inr (p', rows')"
  shows "private_has_owner rows'"
  using assms(2)
proof (rule UpdatePaste_InrD)
  fix p
  assume "p' = p\<lparr>Title := title, Content := content,
                  ContentHash := computeFileHash md5 content,
                  Language := language, Unlisted := unlisted, UpdatedAt := now\<rparr>"
    and "UserID p = Some userID" and rows': "rows' = db_Save p' rows"
  then have "UserID p' \<noteq> None" by simp
  with assms(1) rows' show ?thesis
    by (auto simp: private_has_owner_def dest!: set_db_Save)
qed

lemma private_has_owner_DeletePaste:
  assumes "private_has_owner rows" and "DeletePaste now pasteID userID rows = Inr rows'"
  shows "private_has_owner rows'"
  by (rule DeletePaste_InrD [OF assms(2)])
     (use assms(1) in \<open>simp add: private_has_owner_db_Delete\<close>)

section \<open>Deduplication on create\<close>

lemma First_append_new:
  assumes "First cond rows = None" and "cond p" and "live p"
  shows "First cond (rows @ [p]) = Some p"
proof -
  from assms(1) have "filter (\<lambda>r. cond r \<and> live r) rows = []"
    by (simp add: First_def least_by_None_iff)
  with assms(2,3) show ?thesis by (simp add: First_def)
qed

lemma CreatePaste_result:
  assumes "CreatePaste md5 now rnd title content language isPrivate unlisted expiresIn userID rows
             = Inr (p, rows')"
  shows "p \<in> set rows'" and "set rows \<subseteq> set rows'" and "live p"
    and "ContentHash p = computeFileHash md5 content" and "UserID p = userID"
    and "dedup md5 content userID rows' = Some p"
  using assms
  by (cases rule: CreatePaste_cases;
      auto dest: First_SomeD simp: live_def intro: First_append_new)+

lemma CreatePaste_existing:
  assumes valid: "passes_validation content isPrivate userID"
    and e: "e \<in> set rows" "live e"
      "ContentHash e = computeFileHash md5 content" "UserID e = userID"
  obtains e' where
    "CreatePaste md5 now rnd title content language isPrivate unlisted expiresIn userID rows
       = Inr (e', rows)"
    and "e' \<in> set rows" and "live e'"
    and "ContentHash e' = computeFileHash md5 content" and "UserID e' = userID"
proof -
  from e have "dedup md5 content userID rows \<noteq> None"
    by (auto simp: First_None_iff)
  then obtain e' where hit: "dedup md5 content userID rows = Some e'" by blast
  from CreatePaste_hit [OF valid hit] First_SomeD [OF hit] that show ?thesis
    by blast
qed

lemma CreatePaste_again:
  assumes first:
      "CreatePaste md5 now rnd title content language isPrivate unlisted expiresIn userID rows
         = Inr (p1, rows1)"
    and gate: "\<not> (isPrivate' \<and> userID = None)"
  shows "CreatePaste md5 now' rnd' title' content language' isPrivate' unlisted' expiresIn' userID
           rows1 = Inr (p1, rows1)"
proof -
  from first have "passes_validation content isPrivate userID"
    by (cases rule: CreatePaste_cases)
  with gate have "passes_validation content isPrivate' userID"
    by (simp add: passes_validation_def)
  then show ?thesis
    using CreatePaste_result(6) [OF first] by (rule CreatePaste_hit)
qed

lemma CreatePaste_other_scope:
  assumes pk: "pk_unique rows"
    and first:
      "CreatePaste md5 now rnd title content language isPrivate unlisted expiresIn userID rows
         = Inr (p1, rows1)"
    and second:
      "CreatePaste md5 now' rnd' title' content language' isPrivate' unlisted' expiresIn' userID'
         rows1 = Inr (p2, rows2)"
    and scopes: "userID' \<noteq> userID"
  shows "ID p2 \<noteq> ID p1" and "p1 \<in> set rows2" and "p2 \<in> set rows2"
proof -
  from pk first have "pk_unique rows1" by (rule pk_unique_CreatePaste)
  then have "pk_unique rows2" using second by (rule pk_unique_CreatePaste)
  then have inj: "inj_on ID (set rows2)" by (simp add: pk_unique_def distinct_map)
  show p1: "p1 \<in> set rows2"
    using CreatePaste_result(1) [OF first] CreatePaste_result(2) [OF second] by blast
  show p2: "p2 \<in> set rows2" by (rule CreatePaste_result(1) [OF second])
  from scopes have "p2 \<noteq> p1"
    using CreatePaste_result(5) [OF first] CreatePaste_result(5) [OF second] by auto
  with inj p1 p2 show "ID p2 \<noteq> ID p1" by (auto dest: inj_onD)
qed

text \<open>
  Claim C1, as the code has it. Creating a paste is idempotent per owner scope for input
  that passes the three checks of \<open>CreatePaste\<close>, which run before the lookup: when a
  live row with the fingerprint of the content exists in the scope of \<open>userID\<close> (a user,
  or \<open>None\<close> for anonymous), the call returns such an existing row (that very row when it
  is the only one) and leaves the table as it was, so there is no new row and no new ID.
  Hence a second call with the same content in the same scope returns the paste of the
  first call, whatever its other arguments; and calls with the same content in two
  different scopes return two different rows with different IDs.
\<close>

theorem CreatePaste_idempotent_per_scope:
  "(passes_validation content isPrivate userID \<and> e \<in> set rows \<and> live e \<and>
    ContentHash e = computeFileHash md5 content \<and> UserID e = userID \<longrightarrow>
      (\<exists>e'. CreatePaste md5 now rnd title content language isPrivate unlisted expiresIn userID
               rows = Inr (e', rows) \<and>
            e' \<in> set rows \<and> live e' \<and>
            ContentHash e' = computeFileHash md5 content \<and> UserID e' = userID \<and>
            ((\<forall>r \<in> set rows. live r \<and> ContentHash r = computeFileHash md5 content \<and>
                 UserID r = userID \<longrightarrow> r = e) \<longrightarrow> e' = e))) \<and>
   (CreatePaste md5 now rnd title content language isPrivate unlisted expiresIn userID rows
      = Inr (p1, rows1) \<longrightarrow>
      (\<not> (isPrivate' \<and> userID = None) \<longrightarrow>
         CreatePaste md5 now' rnd' title' content language' isPrivate' unlisted' expiresIn'
           userID rows1 = Inr (p1, rows1)) \<and>
      (pk_unique rows \<and> userID' \<noteq> userID \<and>
       CreatePaste md5 now' rnd' title' content language' isPrivate' unlisted' expiresIn'
         userID' rows1 = Inr (p2, rows2) \<longrightarrow>
         ID p2 \<noteq> ID p1 \<and> p1 \<in> set rows2 \<and> p2 \<in> set rows2))"
proof (intro conjI impI)
  assume h: "passes_validation content isPrivate userID \<and> e \<in> set rows \<and> live e \<and>
    ContentHash e = computeFileHash md5 content \<and> UserID e = userID"
  then obtain e' where
    "CreatePaste md5 now rnd title content language isPrivate unlisted expiresIn userID rows
       = Inr (e', rows)"
    and "e' \<in> set rows" and "live e'"
    and "ContentHash e' = computeFileHash md5 content" and "UserID e' = userID"
    by (blast elim: CreatePaste_existing)
  then show "\<exists>e'. CreatePaste md5 now rnd title content language isPrivate unlisted expiresIn
      userID rows = Inr (e', rows) \<and>
            e' \<in> set rows \<and> live e' \<and>
            ContentHash e' = computeFileHash md5 content \<and> UserID e' = userID \<and>
            ((\<forall>r \<in> set rows. live r \<and> ContentHash r = computeFileHash md5 content \<and>
                 UserID r = userID \<longrightarrow> r = e) \<longrightarrow> e' = e)"
    by blast
next
  assume "CreatePaste md5 now rnd title content language isPrivate unlisted expiresIn userID rows
      = Inr (p1, rows1)"
    and "\<not> (isPrivate' \<and> userID = None)"
  then show "CreatePaste md5 now' rnd' title' content language' isPrivate' unlisted' expiresIn'
           userID rows1 = Inr (p1, rows1)"
    by (rule CreatePaste_again)
next
  assume first: "CreatePaste md5 now rnd title content language isPrivate unlisted expiresIn
      userID rows = Inr (p1, rows1)"
    and h: "pk_unique rows \<and> userID' \<noteq> userID \<and>
       CreatePaste md5 now' rnd' title' content language' isPrivate' unlisted' expiresIn'
         userID' rows1 = Inr (p2, rows2)"
  from h have pk: "pk_unique rows" and scopes: "userID' \<noteq> userID"
    and second: "CreatePaste md5 now' rnd' title' content language' isPrivate' unlisted'
      expiresIn' userID' rows1 = Inr (p2, rows2)"
    by simp_all
  show "ID p2 \<noteq> ID p1" by (rule CreatePaste_other_scope(1) [OF pk first second scopes])
  show "p1 \<in> set rows2" by (rule CreatePaste_other_scope(2) [OF pk first second scopes])
  show "p2 \<in> set rows2" by (rule CreatePaste_other_scope(3) [OF pk first second scopes])
qed

lemmas sample_defs =
  sample_row_def sample_md5_def sample_rnd_def sample_rnd'_def
  randfilename_def letterRunes_def Intn_def upt_conv_Cons
  First_def live_def db_Create_def passes_validation_def pk_unique_def Let_def

theorem CreatePaste_idempotent_per_scope_witness:
  "passes_validation ''hi'' False None \<and> pk_unique [] \<and>
   CreatePaste sample_md5 0 sample_rnd [] ''hi'' [] False False None None []
     = Inr (sample_row ''abcdefgh'' ''hi'' False None None,
            [sample_row ''abcdefgh'' ''hi'' False None None]) \<and>
   CreatePaste sample_md5 0 sample_rnd' ''again'' ''hi'' ''go'' False True (Some 5) None
       [sample_row ''abcdefgh'' ''hi'' False None None]
     = Inr (sample_row ''abcdefgh'' ''hi'' False None None,
            [sample_row ''abcdefgh'' ''hi'' False None None]) \<and>
   CreatePaste sample_md5 0 sample_rnd' [] ''hi'' [] True False None (Some 7)
       [sample_row ''abcdefgh'' ''hi'' False None None]
     = Inr (sample_row ''ELSZgnuB'' ''hi'' True None (Some 7),
            [sample_row ''abcdefgh'' ''hi'' False None None,
             sample_row ''ELSZgnuB'' ''hi'' True None (Some 7)]) \<and>
   ID (sample_row ''ELSZgnuB'' ''hi'' True None (Some 7))
     \<noteq> ID (sample_row ''abcdefgh'' ''hi'' False None None)"
proof -
  let ?A = "sample_row ''abcdefgh'' ''hi'' False None None"
  let ?B = "sample_row ''ELSZgnuB'' ''hi'' True None (Some 7)"
  have valid: "passes_validation ''hi'' False None" and pk: "pk_unique []"
    by (simp_all add: sample_defs)
  have first: "CreatePaste sample_md5 0 sample_rnd [] ''hi'' [] False False None None []
      = Inr (?A, [?A])"
    by (simp add: CreatePaste_def sample_defs)
  have other: "CreatePaste sample_md5 0 sample_rnd' [] ''hi'' [] True False None (Some 7) [?A]
      = Inr (?B, [?A, ?B])"
    by (simp add: CreatePaste_def sample_defs)
  have A: "?A \<in> set [?A]" "live ?A"
    "ContentHash ?A = computeFileHash sample_md5 ''hi''" "UserID ?A = None"
    by (simp_all add: sample_row_def live_def)
  from CreatePaste_idempotent_per_scope
    [where ?md5.0 = sample_md5 and content = "''hi''" and isPrivate = False and userID = None
       and rows = "[]" and now = 0 and rnd = sample_rnd and title = "[]" and language = "[]"
       and unlisted = False and expiresIn = None and ?p1.0 = "?A" and ?rows1.0 = "[?A]"
       and isPrivate' = False and now' = 0 and rnd' = sample_rnd' and title' = "''again''"
       and language' = "''go''" and unlisted' = True and expiresIn' = "Some 5"]
    first
  have again: "CreatePaste sample_md5 0 sample_rnd' ''again'' ''hi'' ''go'' False True (Some 5)
      None [?A] = Inr (?A, [?A])"
    by simp
  from CreatePaste_idempotent_per_scope
    [where ?md5.0 = sample_md5 and content = "''hi''" and isPrivate = False and userID = None
       and rows = "[]" and now = 0 and rnd = sample_rnd and title = "[]" and language = "[]"
       and unlisted = False and expiresIn = None and ?p1.0 = "?A" and ?rows1.0 = "[?A]"
       and isPrivate' = True and now' = 0 and rnd' = sample_rnd' and title' = "[]"
       and language' = "[]" and unlisted' = False and expiresIn' = None
       and userID' = "Some 7" and ?p2.0 = "?B" and ?rows2.0 = "[?A, ?B]"]
    first other pk
  have "ID ?B \<noteq> ID ?A" by simp
  with valid pk first again other show ?thesis by simp
qed

text \<open>
  Claim C1 as stated, for every content and scope, fails where a check rejects the input
  although a matching paste exists. An anonymous paste with content \<open>hi\<close> exists, and an
  anonymous call with the same content that asks for a private paste gets an error, not
  that paste. Likewise user 1 owns a paste and empties it with \<open>UpdatePaste\<close>; the row
  now carries the fingerprint of the empty content in the scope of user 1, and
  \<open>CreatePaste\<close> with the empty content in that scope is rejected.
\<close>

theorem CreatePaste_idempotent_counterexample:
  "live (sample_row ''abcdefgh'' ''hi'' False None None) \<and>
   ContentHash (sample_row ''abcdefgh'' ''hi'' False None None)
     = computeFileHash sample_md5 ''hi'' \<and>
   UserID (sample_row ''abcdefgh'' ''hi'' False None None) = None \<and>
   CreatePaste sample_md5 0 sample_rnd [] ''hi'' ''text'' True False None None
       [sample_row ''abcdefgh'' ''hi'' False None None]
     = Inl (New ''must be logged in to create private pastes'') \<and>
   UpdatePaste sample_md5 0 ''abcdefgh'' [] [] ''text'' False 1
       [sample_row ''abcdefgh'' ''x'' False None (Some 1)]
     = Inr (sample_row ''abcdefgh'' [] False None (Some 1),
            [sample_row ''abcdefgh'' [] False None (Some 1)]) \<and>
   live (sample_row ''abcdefgh'' [] False None (Some 1)) \<and>
   ContentHash (sample_row ''abcdefgh'' [] False None (Some 1)) = computeFileHash sample_md5 [] \<and>
   UserID (sample_row ''abcdefgh'' [] False None (Some 1)) = Some 1 \<and>
   CreatePaste sample_md5 0 sample_rnd [] [] ''text'' False False None (Some 1)
       [sample_row ''abcdefgh'' [] False None (Some 1)]
     = Inl (New ''paste content cannot be empty'')"
  by (simp add: CreatePaste_def UpdatePaste_def db_Save_def sample_defs)

section \<open>Reading a paste\<close>

lemma GetPaste_absent:
  "pasteID \<notin> ID ` set rows \<Longrightarrow> GetPaste now pasteID viewer rows = Inl (New ''paste not found'')"
  by (simp add: GetPaste_def First_absent)

lemma GetPaste_private_other:
  assumes "pk_unique rows" and "P \<in> set rows" and "IsPrivate P"
    and "viewer = None \<or> viewer \<noteq> UserID P"
  shows "GetPaste now (ID P) viewer rows = Inl (New ''paste not found'')"
  using assms(3,4) by (auto simp: GetPaste_def First_by_ID [OF assms(1,2)])

lemma GetPaste_error: "GetPaste now pasteID viewer rows = Inl e \<Longrightarrow> e = New ''paste not found''"
  by (auto simp: GetPaste_def split: option.splits if_splits)

text \<open>
  Claim C2. For a private paste \<open>P\<close> of the table and a viewer \<open>V\<close> who is not its owner
  (\<open>V = None\<close> is the anonymous viewer), \<open>GetPaste\<close> on the ID of \<open>P\<close> fails with exactly the
  error it returns for an ID that no row has, at any time and for any viewer. Every failure
  of \<open>GetPaste\<close> is this one error value, so there is no separate forbidden outcome.
\<close>

theorem GetPaste_private_indistinguishable:
  "(pk_unique rows \<and> P \<in> set rows \<and> IsPrivate P \<and> (V = None \<or> V \<noteq> UserID P) \<and>
    absentID \<notin> ID ` set rows' \<longrightarrow>
      GetPaste now (ID P) V rows = GetPaste now' absentID V' rows' \<and>
      GetPaste now (ID P) V rows = Inl (New ''paste not found'')) \<and>
   (GetPaste now pasteID V rows = Inl e \<longrightarrow> e = New ''paste not found'')"
proof (intro conjI impI)
  assume h: "pk_unique rows \<and> P \<in> set rows \<and> IsPrivate P \<and> (V = None \<or> V \<noteq> UserID P) \<and>
    absentID \<notin> ID ` set rows'"
  then have priv: "GetPaste now (ID P) V rows = Inl (New ''paste not found'')"
    by (simp add: GetPaste_private_other)
  from h have "GetPaste now' absentID V' rows' = Inl (New ''paste not found'')"
    by (simp add: GetPaste_absent)
  with priv show "GetPaste now (ID P) V rows = GetPaste now' absentID V' rows'" by simp
  from priv show "GetPaste now (ID P) V rows = Inl (New ''paste not found'')" .
next
  assume "GetPaste now pasteID V rows = Inl e"
  then show "e = New ''paste not found''" by (rule GetPaste_error)
qed

theorem GetPaste_private_indistinguishable_witness:
  "pk_unique [sample_row ''abcdefgh'' ''secret'' True None (Some 1)] \<and>
   IsPrivate (sample_row ''abcdefgh'' ''secret'' True None (Some 1)) \<and>
   ''nonesuch'' \<notin> ID ` set [sample_row ''abcdefgh'' ''secret'' True None (Some 1)] \<and>
   GetPaste 5 ''abcdefgh'' (Some 2) [sample_row ''abcdefgh'' ''secret'' True None (Some 1)]
     = GetPaste 5 ''nonesuch'' (Some 2) [sample_row ''abcdefgh'' ''secret'' True None (Some 1)] \<and>
   GetPaste 5 ''abcdefgh'' None [sample_row ''abcdefgh'' ''secret'' True None (Some 1)]
     = Inl (New ''paste not found'') \<and>
   GetPaste 5 ''abcdefgh'' (Some 1) [sample_row ''abcdefgh'' ''secret'' True None (Some 1)]
     = Inr (sample_row ''abcdefgh'' ''secret'' True None (Some 1))"
proof -
  let ?P = "sample_row ''abcdefgh'' ''secret'' True None (Some 1)"
  have pre: "pk_unique [?P]" "?P \<in> set [?P]" "IsPrivate ?P" "ID ?P = ''abcdefgh''"
    "Some 2 \<noteq> UserID ?P" "''nonesuch'' \<notin> ID ` set [?P]"
    by (simp_all add: sample_defs)
  have owner: "GetPaste 5 ''abcdefgh'' (Some 1) [?P] = Inr ?P"
    by (simp add: GetPaste_def sample_defs)
  from GetPaste_private_indistinguishable
    [where rows = "[?P]" and P = "?P" and V = "Some 2" and absentID = "''nonesuch''"
       and rows' = "[?P]" and now = 5 and now' = 5 and V' = "Some 2"
       and pasteID = "[]" and e = StoreError] pre
  have other: "GetPaste 5 ''abcdefgh'' (Some 2) [?P] = GetPaste 5 ''nonesuch'' (Some 2) [?P]"
    by simp
  from GetPaste_private_indistinguishable
    [where rows = "[?P]" and P = "?P" and V = None and absentID = "''nonesuch''"
       and rows' = "[?P]" and now = 5 and now' = 5 and V' = None
       and pasteID = "[]" and e = StoreError] pre
  have anon: "GetPaste 5 ''abcdefgh'' None [?P] = Inl (New ''paste not found'')"
    by auto
  from pre owner other anon show ?thesis by simp
qed

section \<open>The expiration sweep\<close>

lemma CleanupExpiredPastes_sweeps:
  "CleanupExpiredPastes stamp now rows =
     (RowsAffected (sweeps stamp now) rows, db_Delete now (sweeps stamp now) rows)"
  by (simp add: CleanupExpiredPastes_def sweeps_def [abs_def] Let_def)

lemma db_Delete_noop:
  assumes "\<forall>r \<in> set rows. \<not> (cond r \<and> live r)"
  shows "db_Delete now cond rows = rows" and "RowsAffected cond rows = 0"
proof -
  from assms have "map (\<lambda>r. if cond r \<and> live r then r\<lparr>DeletedAt := Some now\<rparr> else r) rows
      = map (\<lambda>r. r) rows"
    by (intro map_cong) auto
  then show "db_Delete now cond rows = rows" by (simp add: db_Delete_def)
  from assms show "RowsAffected cond rows = 0"
    by (simp add: RowsAffected_def filter_empty_conv)
qed

lemma db_Delete_sweeps_none_left:
  assumes "r \<in> set (db_Delete now (sweeps stamp now) rows)"
  shows "\<not> (sweeps stamp now r \<and> live r)"
proof -
  from assms obtain q where "q \<in> set rows"
    and r: "r = (if sweeps stamp now q \<and> live q then q\<lparr>DeletedAt := Some now\<rparr> else q)"
    by (auto simp: db_Delete_def)
  show ?thesis
  proof (cases "sweeps stamp now q \<and> live q")
    case True
    with r show ?thesis by (simp add: live_def)
  next
    case False
    with r show ?thesis by simp
  qed
qed

lemma db_Delete_nth:
  "i < length rows \<Longrightarrow>
   db_Delete now cond rows ! i =
     (if cond (rows ! i) \<and> live (rows ! i) then (rows ! i)\<lparr>DeletedAt := Some now\<rparr> else rows ! i)"
  by (simp add: db_Delete_def)

lemma sweeps_expired:
  assumes "\<And>e. ExpiresAt r = Some e \<Longrightarrow> stamp e < stamp now \<longleftrightarrow> e < now"
  shows "sweeps stamp now r \<longleftrightarrow> expired now r"
  using assms by (cases "ExpiresAt r") (simp_all add: sweeps_def expired_def)

text \<open>
  Claim C3, as the code has it. The sweep removes no row: the table keeps its length and
  its IDs. It sets the deletion marker of the live rows that its condition selects, and
  leaves every other row, and every other column, as it was; a paste without expiration
  instant is never selected. Where the texts of the expiration instants sort against the
  text of the sweep's clock reading as the instants themselves do, the rows selected are
  the pastes whose expiration instant is in the past. The sweep returns the number of rows
  it marked. Afterwards no live row is selected, and a run at any instant at which no live
  row is selected (the same instant in particular) returns zero and changes nothing.
\<close>

theorem CleanupExpiredPastes_marks_deleted:
  "CleanupExpiredPastes stamp now rows = (n, rows') \<longrightarrow>
     length rows' = length rows \<and> map ID rows' = map ID rows \<and>
     (\<forall>i < length rows.
        rows' ! i = (if sweeps stamp now (rows ! i) \<and> live (rows ! i)
                     then (rows ! i)\<lparr>DeletedAt := Some now\<rparr> else rows ! i)) \<and>
     n = length (filter (\<lambda>r. sweeps stamp now r \<and> live r) rows) \<and>
     (\<forall>r \<in> set rows. ExpiresAt r = None \<longrightarrow> \<not> sweeps stamp now r) \<and>
     ((\<forall>r \<in> set rows. \<forall>e. ExpiresAt r = Some e \<longrightarrow> (stamp e < stamp now \<longleftrightarrow> e < now)) \<longrightarrow>
        (\<forall>r \<in> set rows. sweeps stamp now r \<longleftrightarrow> expired now r)) \<and>
     (\<forall>r \<in> set rows'. \<not> (sweeps stamp now r \<and> live r)) \<and>
     CleanupExpiredPastes stamp now rows' = (0, rows') \<and>
     ((\<forall>r \<in> set rows'. \<not> (sweeps stamp later r \<and> live r)) \<longrightarrow>
        CleanupExpiredPastes stamp later rows' = (0, rows'))"
proof
  assume "CleanupExpiredPastes stamp now rows = (n, rows')"
  then have n: "n = RowsAffected (sweeps stamp now) rows"
    and rows': "rows' = db_Delete now (sweeps stamp now) rows"
    by (simp_all add: CleanupExpiredPastes_sweeps)
  have len: "length rows' = length rows" and ids: "map ID rows' = map ID rows"
    using rows' by (simp_all add: db_Delete_def)
  have nth: "\<forall>i < length rows.
        rows' ! i = (if sweeps stamp now (rows ! i) \<and> live (rows ! i)
                     then (rows ! i)\<lparr>DeletedAt := Some now\<rparr> else rows ! i)"
    using rows' by (simp add: db_Delete_nth)
  have count: "n = length (filter (\<lambda>r. sweeps stamp now r \<and> live r) rows)"
    using n by (simp add: RowsAffected_def)
  have no_expiry: "\<forall>r \<in> set rows. ExpiresAt r = None \<longrightarrow> \<not> sweeps stamp now r"
    by (simp add: sweeps_def)
  have in_order: "\<forall>r \<in> set rows. sweeps stamp now r \<longleftrightarrow> expired now r"
    if "\<forall>r \<in> set rows. \<forall>e. ExpiresAt r = Some e \<longrightarrow> (stamp e < stamp now \<longleftrightarrow> e < now)"
    using that by (intro ballI sweeps_expired) blast
  have none_left: "\<forall>r \<in> set rows'. \<not> (sweeps stamp now r \<and> live r)"
    using rows' db_Delete_sweeps_none_left by blast
  have noop: "CleanupExpiredPastes stamp t rows' = (0, rows')"
    if "\<forall>r \<in> set rows'. \<not> (sweeps stamp t r \<and> live r)" for t
    using db_Delete_noop [OF that] by (simp add: CleanupExpiredPastes_sweeps)
  from len ids nth count no_expiry in_order none_left noop [of now] noop [of later]
  show "length rows' = length rows \<and> map ID rows' = map ID rows \<and>
     (\<forall>i < length rows.
        rows' ! i = (if sweeps stamp now (rows ! i) \<and> live (rows ! i)
                     then (rows ! i)\<lparr>DeletedAt := Some now\<rparr> else rows ! i)) \<and>
     n = length (filter (\<lambda>r. sweeps stamp now r \<and> live r) rows) \<and>
     (\<forall>r \<in> set rows. ExpiresAt r = None \<longrightarrow> \<not> sweeps stamp now r) \<and>
     ((\<forall>r \<in> set rows. \<forall>e. ExpiresAt r = Some e \<longrightarrow> (stamp e < stamp now \<longleftrightarrow> e < now)) \<longrightarrow>
        (\<forall>r \<in> set rows. sweeps stamp now r \<longleftrightarrow> expired now r)) \<and>
     (\<forall>r \<in> set rows'. \<not> (sweeps stamp now r \<and> live r)) \<and>
     CleanupExpiredPastes stamp now rows' = (0, rows') \<and>
     ((\<forall>r \<in> set rows'. \<not> (sweeps stamp later r \<and> live r)) \<longrightarrow>
        CleanupExpiredPastes stamp later rows' = (0, rows'))"
    by blast
qed

lemmas stamp_defs = utc_stamp_def berlin_stamp_def at_0040_def at_0050_def at_0110_def at_0120_def

theorem CleanupExpiredPastes_marks_deleted_witness:
  "utc_stamp at_0050 < utc_stamp at_0110 \<and> at_0050 < at_0110 \<and>
   \<not> utc_stamp at_0120 < utc_stamp at_0110 \<and> \<not> at_0120 < at_0110 \<and>
   expired at_0110 (sample_row ''abcdefgh'' ''old'' False (Some at_0050) None) \<and>
   \<not> expired at_0110 (sample_row ''ELSZgnuB'' ''new'' False (Some at_0120) None) \<and>
   CleanupExpiredPastes utc_stamp at_0110
     [sample_row ''abcdefgh'' ''old'' False (Some at_0050) None,
      sample_row ''ELSZgnuB'' ''new'' False (Some at_0120) None]
     = (1, [(sample_row ''abcdefgh'' ''old'' False (Some at_0050) None)
              \<lparr>DeletedAt := Some at_0110\<rparr>,
            sample_row ''ELSZgnuB'' ''new'' False (Some at_0120) None]) \<and>
   sweeps utc_stamp at_0110 (sample_row ''abcdefgh'' ''old'' False (Some at_0050) None) \<and>
   \<not> sweeps utc_stamp at_0110 (sample_row ''ELSZgnuB'' ''new'' False (Some at_0120) None) \<and>
   CleanupExpiredPastes utc_stamp at_0110
     [(sample_row ''abcdefgh'' ''old'' False (Some at_0050) None)\<lparr>DeletedAt := Some at_0110\<rparr>,
      sample_row ''ELSZgnuB'' ''new'' False (Some at_0120) None]
     = (0, [(sample_row ''abcdefgh'' ''old'' False (Some at_0050) None)
              \<lparr>DeletedAt := Some at_0110\<rparr>,
            sample_row ''ELSZgnuB'' ''new'' False (Some at_0120) None])"
proof -
  let ?old = "sample_row ''abcdefgh'' ''old'' False (Some at_0050) None"
  let ?new = "sample_row ''ELSZgnuB'' ''new'' False (Some at_0120) None"
  have order: "utc_stamp at_0050 < utc_stamp at_0110" "at_0050 < at_0110"
    "\<not> utc_stamp at_0120 < utc_stamp at_0110" "\<not> at_0120 < at_0110"
    by (simp_all add: stamp_defs)
  have exp: "expired at_0110 ?old" "\<not> expired at_0110 ?new"
    by (simp_all add: expired_def sample_row_def stamp_defs)
  have run: "CleanupExpiredPastes utc_stamp at_0110 [?old, ?new]
      = (1, [?old\<lparr>DeletedAt := Some at_0110\<rparr>, ?new])"
    using order(1,3)
    by (simp add: CleanupExpiredPastes_def RowsAffected_def db_Delete_def sample_row_def
        live_def Let_def)
  have agree: "\<forall>r \<in> set [?old, ?new]. \<forall>e. ExpiresAt r = Some e \<longrightarrow>
      (utc_stamp e < utc_stamp at_0110 \<longleftrightarrow> e < at_0110)"
    using order by (simp add: sample_row_def)
  note C3 = CleanupExpiredPastes_marks_deleted
    [where stamp = utc_stamp and now = at_0110 and rows = "[?old, ?new]" and n = 1
       and rows' = "[?old\<lparr>DeletedAt := Some at_0110\<rparr>, ?new]" and later = at_0110,
     THEN mp, OF run]
  from C3 have again: "CleanupExpiredPastes utc_stamp at_0110
      [?old\<lparr>DeletedAt := Some at_0110\<rparr>, ?new]
      = (0, [?old\<lparr>DeletedAt := Some at_0110\<rparr>, ?new])"
    by blast
  from C3 agree have "\<forall>r \<in> set [?old, ?new]. sweeps utc_stamp at_0110 r \<longleftrightarrow> expired at_0110 r"
    by blast
  with exp have sel: "sweeps utc_stamp at_0110 ?old" "\<not> sweeps utc_stamp at_0110 ?new"
    by simp_all
  from order exp run sel again show ?thesis by blast
qed

text \<open>
  Claim C3 as stated fails: after the sweep the expired paste is still a row of the table,
  with its deletion marker set.
\<close>

theorem CleanupExpiredPastes_purge_counterexample:
  "expired at_0110 (sample_row ''abcdefgh'' ''old'' False (Some at_0050) None) \<and>
   snd (CleanupExpiredPastes utc_stamp at_0110
          [sample_row ''abcdefgh'' ''old'' False (Some at_0050) None])
     = [(sample_row ''abcdefgh'' ''old'' False (Some at_0050) None)
          \<lparr>DeletedAt := Some at_0110\<rparr>] \<and>
   snd (CleanupExpiredPastes utc_stamp at_0110
          [sample_row ''abcdefgh'' ''old'' False (Some at_0050) None]) \<noteq> []"
  by (simp add: CleanupExpiredPastes_def RowsAffected_def db_Delete_def expired_def
      sample_row_def live_def Let_def stamp_defs)

text \<open>
  Where the offset changes between two instants, their texts need not sort as the instants
  do. On the server whose offset goes from +02:00 to +01:00 at 01:00 UTC, the sweep at
  01:10 UTC leaves live a paste that expired at 00:50 UTC, and a sweep at 00:40 UTC marks a
  paste that expires at 01:20 UTC.
\<close>

lemma CleanupExpiredPastes_offset_change:
  "expired at_0110 (sample_row ''abcdefgh'' ''old'' False (Some at_0050) None) \<and>
   CleanupExpiredPastes berlin_stamp at_0110
     [sample_row ''abcdefgh'' ''old'' False (Some at_0050) None]
     = (0, [sample_row ''abcdefgh'' ''old'' False (Some at_0050) None]) \<and>
   \<not> expired at_0040 (sample_row ''ELSZgnuB'' ''new'' False (Some at_0120) None) \<and>
   CleanupExpiredPastes berlin_stamp at_0040
     [sample_row ''ELSZgnuB'' ''new'' False (Some at_0120) None]
     = (1, [(sample_row ''ELSZgnuB'' ''new'' False (Some at_0120) None)
              \<lparr>DeletedAt := Some at_0040\<rparr>])"
  by (simp add: CleanupExpiredPastes_def RowsAffected_def db_Delete_def expired_def
      sample_row_def live_def Let_def stamp_defs)

section \<open>Expiration\<close>

lemma GetPaste_expired:
  assumes "pk_unique rows" and "p \<in> set rows" and "expired now p"
  shows "GetPaste now (ID p) viewer rows = Inl (New ''paste not found'')"
  using assms(3) by (auto simp: GetPaste_def First_by_ID [OF assms(1,2)] expired_def)

lemma GetPaste_visible:
  assumes "pk_unique rows" and "p \<in> set rows" and "live p" and "\<not> expired now p"
    and "\<not> IsPrivate p \<or> (viewer \<noteq> None \<and> viewer = UserID p)"
  shows "GetPaste now (ID p) viewer rows = Inr p"
  using assms(3-5) by (auto simp: GetPaste_def First_by_ID [OF assms(1,2)] expired_def)

lemma CreatePaste_stored_expiry:
  assumes "CreatePaste md5 now rnd title content language isPrivate unlisted expiresIn userID rows
             = Inr (p, rows')"
    and "dedup md5 content userID rows = None"
  shows "ExpiresAt p =
           (case expiresIn of
              None \<Rightarrow> None
            | Some n \<Rightarrow> if 0 <s n then Some (now + sint (n * Minute)) else None)"
  using assms
  by (auto simp: CreatePaste_def db_Create_def Let_def Add_def split: if_splits option.splits)

lemma CreatePaste_never_expires:
  assumes "CreatePaste md5 now rnd title content language isPrivate unlisted expiresIn userID rows
             = Inr (p, rows')"
    and "dedup md5 content userID rows = None"
    and "expiresIn = None \<or> expiresIn = Some 0"
  shows "ExpiresAt p = None" and "\<not> expired later p"
  using CreatePaste_stored_expiry [OF assms(1,2)] assms(3)
  by (auto simp: expired_def word_sless_alt)

lemma CreatePaste_never_expires_retrievable:
  assumes pk: "pk_unique rows"
    and run: "CreatePaste md5 now rnd title content language isPrivate unlisted expiresIn userID
                rows = Inr (p, rows')"
    and miss: "dedup md5 content userID rows = None"
    and never: "expiresIn = None \<or> expiresIn = Some 0"
    and viewer: "\<not> isPrivate \<or> viewer = userID"
  shows "GetPaste later (ID p) viewer rows' = Inr p"
proof (rule GetPaste_visible)
  from pk run show "pk_unique rows'" by (rule pk_unique_CreatePaste)
  from run show "p \<in> set rows'" and "live p" by (rule CreatePaste_result)+
  from run miss never show "\<not> expired later p" by (rule CreatePaste_never_expires)
  from run have "passes_validation content isPrivate userID" and "UserID p = userID"
    by (rule CreatePaste_cases, simp, simp, rule CreatePaste_result(5))
  moreover from run miss have "IsPrivate p = isPrivate"
    by (cases rule: CreatePaste_cases) simp_all
  ultimately show "\<not> IsPrivate p \<or> viewer \<noteq> None \<and> viewer = UserID p"
    using viewer by (auto simp: passes_validation_def)
qed

lemma minutes_in_range:
  fixes n :: go_int
  assumes "0 <s n" and "sint n \<le> 153722867"
  shows "sint (n * Minute) = sint n * 60000000000"
proof -
  from assms(1) have pos: "0 < sint n" by (simp add: word_sless_alt)
  have "sint (n * Minute) = signed_take_bit 63 (sint n * sint Minute)"
    by (simp add: sint_word_ariths)
  also have "sint Minute = 60000000000" by (simp add: Minute_def)
  also have "signed_take_bit 63 (sint n * 60000000000) = sint n * 60000000000"
  proof (rule signed_take_bit_int_eq_self)
    from pos show "- (2 ^ 63) \<le> sint n * 60000000000" by simp
    from assms(2) have "sint n * 60000000000 \<le> 153722867 * 60000000000" by simp
    then show "sint n * 60000000000 < 2 ^ 63" by simp
  qed
  finally show ?thesis .
qed

lemma CreatePaste_expiry_in_range:
  assumes "CreatePaste md5 now rnd title content language isPrivate unlisted (Some n) userID rows
             = Inr (p, rows')"
    and "dedup md5 content userID rows = None"
    and "0 <s n" and "sint n \<le> 153722867"
  shows "ExpiresAt p = Some (now + sint n * 60000000000)"
  using CreatePaste_stored_expiry [OF assms(1,2)] assms(3) minutes_in_range [OF assms(3,4)]
  by simp

text \<open>
  Claim C4 at \<open>expiresIn = 153722868\<close> minutes: the product with \<open>time.Minute\<close> exceeds
  2^63 - 1 nanoseconds and wraps to a negative duration. The paste is stored with an
  expiration instant about 292 years before its submission, not 153722868 minutes after
  it, and \<open>GetPaste\<close> at the instant of submission already reports it as not found. With
  153722867 minutes, the largest value below the wrap, the stored instant is the sum.
\<close>

theorem CreatePaste_expiry_wraps:
  "CreatePaste sample_md5 0 sample_rnd [] ''hi'' [] False False (Some 153722868) None []
     = Inr (sample_row ''abcdefgh'' ''hi'' False (Some (- 9223371993709551616)) None,
            [sample_row ''abcdefgh'' ''hi'' False (Some (- 9223371993709551616)) None]) \<and>
   ExpiresAt (sample_row ''abcdefgh'' ''hi'' False (Some (- 9223371993709551616)) None)
     \<noteq> Some (0 + 153722868 * 60000000000) \<and>
   GetPaste 0 ''abcdefgh'' None
     [sample_row ''abcdefgh'' ''hi'' False (Some (- 9223371993709551616)) None]
     = Inl (New ''paste not found'') \<and>
   CreatePaste sample_md5 0 sample_rnd [] ''hi'' [] False False (Some 153722867) None []
     = Inr (sample_row ''abcdefgh'' ''hi'' False (Some (0 + 153722867 * 60000000000)) None,
            [sample_row ''abcdefgh'' ''hi'' False (Some (0 + 153722867 * 60000000000)) None])"
  by (simp add: CreatePaste_def GetPaste_def sample_defs Add_def Minute_def word_sless_alt)

section \<open>Validation on create\<close>

lemma CreatePaste_rejects:
  shows "content = [] \<Longrightarrow>
      CreatePaste md5 now rnd title content language isPrivate unlisted expiresIn userID rows
        = Inl (New ''paste content cannot be empty'')"
    and "length content > 10485760 \<Longrightarrow>
      CreatePaste md5 now rnd title content language isPrivate unlisted expiresIn userID rows
        = Inl (New ''paste too large (max 10MB)'')"
    and "content \<noteq> [] \<Longrightarrow> length content \<le> 10485760 \<Longrightarrow> isPrivate \<and> userID = None \<Longrightarrow>
      CreatePaste md5 now rnd title content language isPrivate unlisted expiresIn userID rows
        = Inl (New ''must be logged in to create private pastes'')"
  by (auto simp: CreatePaste_def)

lemma CreatePaste_valid_outcome:
  assumes "passes_validation content isPrivate userID"
  shows "CreatePaste md5 now rnd title content language isPrivate unlisted expiresIn userID rows
           = Inl e \<Longrightarrow> e = StoreError \<and> randfilename rnd 8 [] \<in> ID ` set rows"
    and "randfilename rnd 8 [] \<notin> ID ` set rows \<Longrightarrow>
         \<exists>p rows'. CreatePaste md5 now rnd title content language isPrivate unlisted
                      expiresIn userID rows = Inr (p, rows')"
  using assms
  by (auto simp: CreatePaste_def db_Create_def passes_validation_def Let_def
           split: option.splits if_splits)

text \<open>
  Claim C5. \<open>CreatePaste\<close> fails with one of its three validation messages when the
  content is empty, when it is longer than 10 MiB (10485760 bytes), or when the paste is
  to be private and there is no owner; the checks run in this order. Input that violates
  none of them passes: then the call cannot fail with a validation message (it fails only
  when the store refuses the drawn ID), and content of exactly 10 MiB is stored whenever
  the drawn ID is free.
\<close>

theorem CreatePaste_validation:
  "(\<not> passes_validation content isPrivate userID \<longrightarrow>
      (\<exists>e. CreatePaste md5 now rnd title content language isPrivate unlisted expiresIn userID
              rows = Inl e \<and> ValidationError e)) \<and>
   (content = [] \<longrightarrow>
      CreatePaste md5 now rnd title content language isPrivate unlisted expiresIn userID rows
        = Inl (New ''paste content cannot be empty'')) \<and>
   (length content > 10485760 \<longrightarrow>
      CreatePaste md5 now rnd title content language isPrivate unlisted expiresIn userID rows
        = Inl (New ''paste too large (max 10MB)'')) \<and>
   (content \<noteq> [] \<and> length content \<le> 10485760 \<and> isPrivate \<and> userID = None \<longrightarrow>
      CreatePaste md5 now rnd title content language isPrivate unlisted expiresIn userID rows
        = Inl (New ''must be logged in to create private pastes'')) \<and>
   (passes_validation content isPrivate userID \<longrightarrow>
      (\<forall>e. CreatePaste md5 now rnd title content language isPrivate unlisted expiresIn userID
              rows = Inl e \<longrightarrow>
           \<not> ValidationError e \<and> e = StoreError \<and> randfilename rnd 8 [] \<in> ID ` set rows)) \<and>
   (length content = 10485760 \<and> \<not> (isPrivate \<and> userID = None) \<longrightarrow>
      passes_validation content isPrivate userID \<and>
      (randfilename rnd 8 [] \<notin> ID ` set rows \<longrightarrow>
         (\<exists>p rows'. CreatePaste md5 now rnd title content language isPrivate unlisted
                       expiresIn userID rows = Inr (p, rows'))))"
proof -
  let ?create =
    "CreatePaste md5 now rnd title content language isPrivate unlisted expiresIn userID rows"
  have empty: "?create = Inl (New ''paste content cannot be empty'')" if "content = []"
    using that by (rule CreatePaste_rejects(1))
  have large: "?create = Inl (New ''paste too large (max 10MB)'')"
    if "length content > 10485760"
    using that by (rule CreatePaste_rejects(2))
  have anon: "?create = Inl (New ''must be logged in to create private pastes'')"
    if "content \<noteq> [] \<and> length content \<le> 10485760 \<and> isPrivate \<and> userID = None"
    using that by (simp add: CreatePaste_rejects(3))
  have invalid: "\<exists>e. ?create = Inl e \<and> ValidationError e"
    if "\<not> passes_validation content isPrivate userID"
  proof -
    from that have "content = [] \<or> length content > 10485760 \<or>
        (content \<noteq> [] \<and> length content \<le> 10485760 \<and> isPrivate \<and> userID = None)"
      by (auto simp: passes_validation_def)
    then show ?thesis
    proof (elim disjE)
      assume "content = []"
      with empty show ?thesis by (simp add: ValidationError_def)
    next
      assume "length content > 10485760"
      with large show ?thesis by (simp add: ValidationError_def)
    next
      assume "content \<noteq> [] \<and> length content \<le> 10485760 \<and> isPrivate \<and> userID = None"
      with anon show ?thesis by (simp add: ValidationError_def)
    qed
  qed
  have valid: "\<forall>e. ?create = Inl e \<longrightarrow>
      \<not> ValidationError e \<and> e = StoreError \<and> randfilename rnd 8 [] \<in> ID ` set rows"
    if pv: "passes_validation content isPrivate userID"
  proof (intro allI impI)
    fix e
    assume "?create = Inl e"
    with pv have "e = StoreError \<and> randfilename rnd 8 [] \<in> ID ` set rows"
      by (rule CreatePaste_valid_outcome(1))
    then show "\<not> ValidationError e \<and> e = StoreError \<and> randfilename rnd 8 [] \<in> ID ` set rows"
      by (simp add: ValidationError_def)
  qed
  have exact: "passes_validation content isPrivate userID \<and>
      (randfilename rnd 8 [] \<notin> ID ` set rows \<longrightarrow> (\<exists>p rows'. ?create = Inr (p, rows')))"
    if h: "length content = 10485760 \<and> \<not> (isPrivate \<and> userID = None)"
  proof -
    from h have "content \<noteq> []" by auto
    with h have pv: "passes_validation content isPrivate userID"
      by (simp add: passes_validation_def)
    with CreatePaste_valid_outcome(2) [OF pv] show ?thesis by blast
  qed
  from empty large anon invalid valid exact show ?thesis by blast
qed

theorem CreatePaste_validation_witness:
  "length (replicate 10485760 (CHR ''a'')) = 10485760 \<and>
   passes_validation (replicate 10485760 (CHR ''a'')) False None \<and>
   randfilename sample_rnd 8 [] \<notin> ID ` set [] \<and>
   (\<exists>p rows'. CreatePaste sample_md5 0 sample_rnd [] (replicate 10485760 (CHR ''a'')) []
                 False False None None [] = Inr (p, rows')) \<and>
   CreatePaste sample_md5 0 sample_rnd [] (replicate 10485761 (CHR ''a'')) [] False False
     None None [] = Inl (New ''paste too large (max 10MB)'') \<and>
   CreatePaste sample_md5 0 sample_rnd [] [] [] False False None None []
     = Inl (New ''paste content cannot be empty'') \<and>
   CreatePaste sample_md5 0 sample_rnd [] ''secret'' [] True False None None []
     = Inl (New ''must be logged in to create private pastes'')"
proof -
  have len: "length (replicate 10485760 (CHR ''a'')) = 10485760"
    and free: "randfilename sample_rnd 8 [] \<notin> ID ` set []"
    by simp_all
  from CreatePaste_validation
    [where content = "replicate 10485760 (CHR ''a'')" and isPrivate = False and userID = None
       and rnd = sample_rnd and rows = "[]" and ?md5.0 = sample_md5 and now = 0
       and title = "[]" and language = "[]" and unlisted = False and expiresIn = None] len
  have exact: "passes_validation (replicate 10485760 (CHR ''a'')) False None \<and>
      (\<exists>p rows'. CreatePaste sample_md5 0 sample_rnd [] (replicate 10485760 (CHR ''a'')) []
                    False False None None [] = Inr (p, rows'))"
    by simp
  from CreatePaste_validation
    [where content = "replicate 10485761 (CHR ''a'')" and isPrivate = False and userID = None
       and rnd = sample_rnd and rows = "[]" and ?md5.0 = sample_md5 and now = 0
       and title = "[]" and language = "[]" and unlisted = False and expiresIn = None]
  have large: "CreatePaste sample_md5 0 sample_rnd [] (replicate 10485761 (CHR ''a'')) []
      False False None None [] = Inl (New ''paste too large (max 10MB)'')"
    by simp
  from CreatePaste_validation
    [where content = "[]" and isPrivate = False and userID = None
       and rnd = sample_rnd and rows = "[]" and ?md5.0 = sample_md5 and now = 0
       and title = "[]" and language = "[]" and unlisted = False and expiresIn = None]
  have empty: "CreatePaste sample_md5 0 sample_rnd [] [] [] False False None None []
      = Inl (New ''paste content cannot be empty'')"
    by simp
  from CreatePaste_validation
    [where content = "''secret''" and isPrivate = True and userID = None
       and rnd = sample_rnd and rows = "[]" and ?md5.0 = sample_md5 and now = 0
       and title = "[]" and language = "[]" and unlisted = False and expiresIn = None]
  have anon: "CreatePaste sample_md5 0 sample_rnd [] ''secret'' [] True False None None []
      = Inl (New ''must be logged in to create private pastes'')"
    by simp
  from len free exact large empty anon show ?thesis by blast
qed

section \<open>Update\<close>

lemma db_Save_replaces:
  assumes "pk_unique rows" and "p \<in> set rows" and "live p" and "ID p' = ID p"
  shows "db_Save p' rows = map (\<lambda>r. if r = p then p' else r) rows"
  unfolding db_Save_def
proof (rule map_cong [OF refl])
  fix r
  assume r: "r \<in> set rows"
  from assms(1) have "inj_on ID (set rows)" by (simp add: pk_unique_def distinct_map)
  with r assms(2) have "ID r = ID p \<longleftrightarrow> r = p" by (auto dest: inj_onD)
  with assms(3,4) show "(if ID r = ID p' \<and> live r then p' else r) = (if r = p then p' else r)"
    by auto
qed

text \<open>
  Claim C6. A successful \<open>UpdatePaste\<close> found a live row \<open>p\<close> with the given ID, owned by
  the caller. The paste it returns and stores has the new title, content, language and
  unlisted flag, the fingerprint of the new content, and the update instant \<open>now\<close>; its
  privacy flag, expiration instant, owner, ID, creation instant and deletion marker are
  those of \<open>p\<close>. In the table, the row \<open>p\<close> is replaced and no other row changes.
\<close>

theorem UpdatePaste_frame:
  "UpdatePaste md5 now pasteID title content language unlisted userID rows = Inr (p', rows') \<longrightarrow>
     (\<exists>p. p \<in> set rows \<and> live p \<and> ID p = pasteID \<and> UserID p = Some userID \<and>
          Title p' = title \<and> Content p' = content \<and> Language p' = language \<and>
          Unlisted p' = unlisted \<and> UpdatedAt p' = now \<and>
          ContentHash p' = computeFileHash md5 (Content p') \<and>
          IsPrivate p' = IsPrivate p \<and> ExpiresAt p' = ExpiresAt p \<and> UserID p' = UserID p \<and>
          ID p' = ID p \<and> CreatedAt p' = CreatedAt p \<and> DeletedAt p' = DeletedAt p \<and>
          length rows' = length rows \<and>
          (pk_unique rows \<longrightarrow> rows' = map (\<lambda>r. if r = p then p' else r) rows))"
proof
  assume "UpdatePaste md5 now pasteID title content language unlisted userID rows
            = Inr (p', rows')"
  then obtain p where found: "First (\<lambda>r. ID r = pasteID) rows = Some p"
    and owner: "UserID p = Some userID"
    and p': "p' = p\<lparr>Title := title, Content := content,
                      ContentHash := computeFileHash md5 content,
                      Language := language, Unlisted := unlisted, UpdatedAt := now\<rparr>"
    and rows': "rows' = db_Save p' rows"
    by (rule UpdatePaste_InrD)
  from First_SomeD [OF found] have p: "p \<in> set rows" "ID p = pasteID" "live p" by simp_all
  from p' have fields: "Title p' = title" "Content p' = content" "Language p' = language"
      "Unlisted p' = unlisted" "UpdatedAt p' = now"
      "ContentHash p' = computeFileHash md5 (Content p')"
    and frame: "IsPrivate p' = IsPrivate p" "ExpiresAt p' = ExpiresAt p" "UserID p' = UserID p"
      "ID p' = ID p" "CreatedAt p' = CreatedAt p" "DeletedAt p' = DeletedAt p"
    by simp_all
  from rows' have len: "length rows' = length rows" by (simp add: db_Save_def)
  have table: "rows' = map (\<lambda>r. if r = p then p' else r) rows" if "pk_unique rows"
    using rows' db_Save_replaces [OF that p(1) p(3) frame(4)] by simp
  from p owner fields frame len table
  show "\<exists>p. p \<in> set rows \<and> live p \<and> ID p = pasteID \<and> UserID p = Some userID \<and>
          Title p' = title \<and> Content p' = content \<and> Language p' = language \<and>
          Unlisted p' = unlisted \<and> UpdatedAt p' = now \<and>
          ContentHash p' = computeFileHash md5 (Content p') \<and>
          IsPrivate p' = IsPrivate p \<and> ExpiresAt p' = ExpiresAt p \<and> UserID p' = UserID p \<and>
          ID p' = ID p \<and> CreatedAt p' = CreatedAt p \<and> DeletedAt p' = DeletedAt p \<and>
          length rows' = length rows \<and>
          (pk_unique rows \<longrightarrow> rows' = map (\<lambda>r. if r = p then p' else r) rows)"
    by blast
qed

theorem UpdatePaste_frame_witness:
  "UpdatePaste sample_md5 7 ''abcdefgh'' ''notes'' ''new'' ''go'' True 1
     [sample_row ''abcdefgh'' ''old'' True (Some 100) (Some 1),
      sample_row ''ELSZgnuB'' ''other'' False None None]
     = Inr (\<lparr>ID = ''abcdefgh'', Title = ''notes'', Content = ''new'',
              ContentHash = computeFileHash sample_md5 ''new'', Language = ''go'',
              IsPrivate = True, Unlisted = True, ExpiresAt = Some 100, UserID = Some 1,
              CreatedAt = 0, UpdatedAt = 7, DeletedAt = None\<rparr>,
            [\<lparr>ID = ''abcdefgh'', Title = ''notes'', Content = ''new'',
              ContentHash = computeFileHash sample_md5 ''new'', Language = ''go'',
              IsPrivate = True, Unlisted = True, ExpiresAt = Some 100, UserID = Some 1,
              CreatedAt = 0, UpdatedAt = 7, DeletedAt = None\<rparr>,
             sample_row ''ELSZgnuB'' ''other'' False None None]) \<and>
   (\<exists>p. p \<in> set [sample_row ''abcdefgh'' ''old'' True (Some 100) (Some 1),
                    sample_row ''ELSZgnuB'' ''other'' False None None] \<and>
        ID p = ''abcdefgh'' \<and> IsPrivate p = True \<and> ExpiresAt p = Some 100 \<and>
        UserID p = Some 1 \<and> CreatedAt p = 0)"
proof -
  let ?rows = "[sample_row ''abcdefgh'' ''old'' True (Some 100) (Some 1),
                sample_row ''ELSZgnuB'' ''other'' False None None]"
  let ?p' = "\<lparr>ID = ''abcdefgh'', Title = ''notes'', Content = ''new'',
              ContentHash = computeFileHash sample_md5 ''new'', Language = ''go'',
              IsPrivate = True, Unlisted = True, ExpiresAt = Some 100, UserID = Some 1,
              CreatedAt = 0, UpdatedAt = 7, DeletedAt = None\<rparr>"
  let ?rows' = "[?p', sample_row ''ELSZgnuB'' ''other'' False None None]"
  have run: "UpdatePaste sample_md5 7 ''abcdefgh'' ''notes'' ''new'' ''go'' True 1 ?rows
      = Inr (?p', ?rows')"
    by (simp add: UpdatePaste_def db_Save_def sample_defs)
  from UpdatePaste_frame
    [where ?md5.0 = sample_md5 and now = 7 and pasteID = "''abcdefgh''" and title = "''notes''"
       and content = "''new''" and language = "''go''" and unlisted = True and userID = 1
       and rows = ?rows and p' = ?p' and rows' = ?rows', THEN mp, OF run]
  obtain p where "p \<in> set ?rows" and "ID p = ''abcdefgh''" and "UserID p = Some 1"
    and "IsPrivate ?p' = IsPrivate p" and "ExpiresAt ?p' = ExpiresAt p"
    and "CreatedAt ?p' = CreatedAt p"
    by blast
  then have "p \<in> set ?rows \<and> ID p = ''abcdefgh'' \<and> IsPrivate p = True \<and>
      ExpiresAt p = Some 100 \<and> UserID p = Some 1 \<and> CreatedAt p = 0"
    by simp
  with run show ?thesis by blast
qed

section \<open>Private pastes have an owner\<close>

text \<open>
  Claim C7. \<open>CreatePaste\<close> rejects a private paste without an owner, and every table the
  service can reach from the empty one (by creating, with or without a deduplication hit,
  updating, deleting, sweeping, or deleting a user's pastes) holds no private paste without
  an owner. Each operation keeps the invariant from any table that has it.
\<close>

theorem private_pastes_have_owner:
  "(isPrivate \<and> userID = None \<longrightarrow>
      (\<exists>e. CreatePaste md5 now rnd title content language isPrivate unlisted expiresIn userID
              rows = Inl e)) \<and>
   (reachable md5 rows \<longrightarrow> private_has_owner rows) \<and>
   (private_has_owner rows \<longrightarrow>
      (CreatePaste md5 now rnd title content language isPrivate unlisted expiresIn userID rows
         = Inr (p, rows') \<longrightarrow> private_has_owner rows') \<and>
      (UpdatePaste md5 now pasteID title content language unlisted owner rows = Inr (p, rows')
         \<longrightarrow> private_has_owner rows') \<and>
      (DeletePaste now pasteID owner rows = Inr rows' \<longrightarrow> private_has_owner rows') \<and>
      private_has_owner (snd (CleanupExpiredPastes stamp now rows)) \<and>
      private_has_owner (DeleteUser_pastes now owner rows))"
proof (intro conjI impI)
  assume "isPrivate \<and> userID = None"
  then show "\<exists>e. CreatePaste md5 now rnd title content language isPrivate unlisted expiresIn
      userID rows = Inl e"
    by (simp add: CreatePaste_def)
next
  assume "reachable md5 rows"
  then show "private_has_owner rows"
  proof (induction rule: reachable.induct)
    case init
    show ?case by (simp add: private_has_owner_def)
  next
    case (create rows now rnd title content language isPrivate unlisted expiresIn userID p rows')
    from create.IH create.hyps(2) show ?case by (rule private_has_owner_CreatePaste)
  next
    case (update rows now pasteID title content language unlisted userID p rows')
    from update.IH update.hyps(2) show ?case by (rule private_has_owner_UpdatePaste)
  next
    case (delete rows now pasteID userID rows')
    from delete.IH delete.hyps(2) show ?case by (rule private_has_owner_DeletePaste)
  next
    case (cleanup rows stamp now)
    then show ?case
      by (simp add: CleanupExpiredPastes_def Let_def private_has_owner_db_Delete)
  next
    case (delete_user rows now userID)
    then show ?case by (simp add: DeleteUser_pastes_def private_has_owner_db_Delete)
  qed
next
  assume "private_has_owner rows"
    and "CreatePaste md5 now rnd title content language isPrivate unlisted expiresIn userID rows
         = Inr (p, rows')"
  then show "private_has_owner rows'" by (rule private_has_owner_CreatePaste)
next
  assume "private_has_owner rows"
    and "UpdatePaste md5 now pasteID title content language unlisted owner rows = Inr (p, rows')"
  then show "private_has_owner rows'" by (rule private_has_owner_UpdatePaste)
next
  assume "private_has_owner rows" and "DeletePaste now pasteID owner rows = Inr rows'"
  then show "private_has_owner rows'" by (rule private_has_owner_DeletePaste)
next
  assume "private_has_owner rows"
  then show "private_has_owner (snd (CleanupExpiredPastes stamp now rows))"
    by (simp add: CleanupExpiredPastes_def Let_def private_has_owner_db_Delete)
next
  assume "private_has_owner rows"
  then show "private_has_owner (DeleteUser_pastes now owner rows)"
    by (simp add: DeleteUser_pastes_def private_has_owner_db_Delete)
qed

theorem private_pastes_have_owner_witness:
  "reachable sample_md5 [sample_row ''abcdefgh'' ''secret'' True None (Some 1)] \<and>
   private_has_owner [sample_row ''abcdefgh'' ''secret'' True None (Some 1)] \<and>
   IsPrivate (sample_row ''abcdefgh'' ''secret'' True None (Some 1)) \<and>
   UserID (sample_row ''abcdefgh'' ''secret'' True None (Some 1)) = Some 1 \<and>
   (\<exists>e. CreatePaste sample_md5 0 sample_rnd [] ''secret'' [] True False None None [] = Inl e)"
proof -
  let ?P = "sample_row ''abcdefgh'' ''secret'' True None (Some 1)"
  have "CreatePaste sample_md5 0 sample_rnd [] ''secret'' [] True False None (Some 1) []
      = Inr (?P, [?P])"
    by (simp add: CreatePaste_def sample_defs)
  with reachable.init [of sample_md5] have reach: "reachable sample_md5 [?P]"
    by (rule reachable.create)
  note C7 = private_pastes_have_owner
    [where ?md5.0 = sample_md5 and rows = "[?P]" and isPrivate = True and userID = None
       and now = 0 and rnd = sample_rnd and title = "[]" and content = "''secret''"
       and language = "[]" and unlisted = False and expiresIn = None]
  from C7 reach have inv: "private_has_owner [?P]" by blast
  from private_pastes_have_owner
    [where ?md5.0 = sample_md5 and rows = "[]" and isPrivate = True and userID = None
       and now = 0 and rnd = sample_rnd and title = "[]" and content = "''secret''"
       and language = "[]" and unlisted = False and expiresIn = None]
  have rejected: "\<exists>e. CreatePaste sample_md5 0 sample_rnd [] ''secret'' [] True False None None []
      = Inl e"
    by blast
  have "IsPrivate ?P" and "UserID ?P = Some 1" by (simp_all add: sample_row_def)
  with reach inv rejected show ?thesis by blast
qed

section \<open>Login\<close>

lemma First_user_unique:
  assumes "distinct (map Username users)" and "u \<in> set users"
  shows "First_user (\<lambda>x. Username x = Username u) users = Some u"
  using assms by (simp add: First_user_def filter_key_distinct)

lemma First_user_unknown:
  "\<forall>u \<in> set users. Username u \<noteq> username \<Longrightarrow>
   First_user (\<lambda>x. Username x = username) users = None"
  by (simp add: First_user_def least_by_None_iff filter_empty_conv)

text \<open>
  Claim C8. Every failure of \<open>Login\<close> is the one error value with the message
  "invalid username or password". It is returned when no user has the username, and it is
  returned when a user has it and the password does not match the stored hash: the two
  results are equal, for any usernames, passwords and user tables.
\<close>

theorem Login_generic_error:
  "(Login compare username password users = Inl e \<longrightarrow>
      e = New ''invalid username or password'') \<and>
   ((\<forall>x \<in> set users. Username x \<noteq> username) \<longrightarrow>
      Login compare username password users = Inl (New ''invalid username or password'')) \<and>
   (distinct (map Username users') \<and> u \<in> set users' \<and>
    \<not> compare (PasswordHash u) password' \<longrightarrow>
      Login compare (Username u) password' users' = Inl (New ''invalid username or password'')) \<and>
   ((\<forall>x \<in> set users. Username x \<noteq> username) \<and>
    distinct (map Username users') \<and> u \<in> set users' \<and>
    \<not> compare (PasswordHash u) password' \<longrightarrow>
      Login compare username password users = Login compare (Username u) password' users')"
proof -
  have any: "e = New ''invalid username or password''"
    if "Login compare username password users = Inl e"
    using that by (auto simp: Login_def split: option.splits if_splits)
  have unknown: "Login compare username password users
      = Inl (New ''invalid username or password'')"
    if "\<forall>x \<in> set users. Username x \<noteq> username"
    using First_user_unknown [OF that] by (simp add: Login_def)
  have wrong: "Login compare (Username u) password' users'
      = Inl (New ''invalid username or password'')"
    if "distinct (map Username users') \<and> u \<in> set users' \<and>
        \<not> compare (PasswordHash u) password'"
  proof -
    from that have "First_user (\<lambda>x. Username x = Username u) users' = Some u"
      by (simp add: First_user_unique)
    with that show ?thesis by (simp add: Login_def)
  qed
  from any unknown wrong show ?thesis by simp
qed

theorem Login_generic_error_witness:
  "''bob'' \<notin> Username ` set [\<lparr>User_ID = 1, Username = ''alice'', PasswordHash = ''hunter2x'',
                                  User_CreatedAt = 0\<rparr>] \<and>
   \<not> (\<lambda>h p. h = p) ''hunter2x'' ''guess'' \<and>
   Login (\<lambda>h p. h = p) ''bob'' ''hunter2x''
     [\<lparr>User_ID = 1, Username = ''alice'', PasswordHash = ''hunter2x'', User_CreatedAt = 0\<rparr>]
     = Login (\<lambda>h p. h = p) ''alice'' ''guess''
         [\<lparr>User_ID = 1, Username = ''alice'', PasswordHash = ''hunter2x'', User_CreatedAt = 0\<rparr>] \<and>
   Login (\<lambda>h p. h = p) ''alice'' ''guess''
     [\<lparr>User_ID = 1, Username = ''alice'', PasswordHash = ''hunter2x'', User_CreatedAt = 0\<rparr>]
     = Inl (New ''invalid username or password'') \<and>
   Login (\<lambda>h p. h = p) ''alice'' ''hunter2x''
     [\<lparr>User_ID = 1, Username = ''alice'', PasswordHash = ''hunter2x'', User_CreatedAt = 0\<rparr>]
     = Inr \<lparr>User_ID = 1, Username = ''alice'', PasswordHash = ''hunter2x'', User_CreatedAt = 0\<rparr>"
proof -
  let ?alice = "\<lparr>User_ID = 1, Username = ''alice'', PasswordHash = ''hunter2x'',
                 User_CreatedAt = 0\<rparr>"
  let ?cmp = "\<lambda>h p :: string. h = p"
  have pre: "\<forall>x \<in> set [?alice]. Username x \<noteq> ''bob''" "distinct (map Username [?alice])"
    "?alice \<in> set [?alice]" "\<not> ?cmp (PasswordHash ?alice) ''guess''"
    "Username ?alice = ''alice''"
    by simp_all
  note C8 = Login_generic_error
    [where compare = ?cmp and username = "''bob''" and password = "''hunter2x''"
       and users = "[?alice]" and users' = "[?alice]" and u = ?alice
       and password' = "''guess''" and e = StoreError]
  from C8 pre have same: "Login ?cmp ''bob'' ''hunter2x'' [?alice]
      = Login ?cmp (Username ?alice) ''guess'' [?alice]"
    by blast
  from C8 pre have wrong: "Login ?cmp (Username ?alice) ''guess'' [?alice]
      = Inl (New ''invalid username or password'')"
    by blast
  have ok: "Login ?cmp ''alice'' ''hunter2x'' [?alice] = Inr ?alice"
    by (simp add: Login_def First_user_def)
  from pre same wrong ok show ?thesis by simp
qed

section \<open>What the deduplication lookup ignores\<close>

lemma CreatePaste_only_match:
  assumes valid: "passes_validation content isPrivate userID"
    and e: "e \<in> set rows" "live e"
      "ContentHash e = computeFileHash md5 content" "UserID e = userID"
    and only: "\<forall>r \<in> set rows. live r \<and> ContentHash r = computeFileHash md5 content \<and>
                 UserID r = userID \<longrightarrow> r = e"
  shows "CreatePaste md5 now rnd title content language isPrivate unlisted expiresIn userID rows
           = Inr (e, rows)"
proof -
  obtain e' where run:
    "CreatePaste md5 now rnd title content language isPrivate unlisted expiresIn userID rows
       = Inr (e', rows)"
    and "e' \<in> set rows" and "live e'"
    and "ContentHash e' = computeFileHash md5 content" and "UserID e' = userID"
    using valid e by (rule CreatePaste_existing)
  with only have "e' = e" by blast
  with run show ?thesis by simp
qed

text \<open>
  Claim C9. The lookup in \<open>CreatePaste\<close> matches on fingerprint and owner scope among the
  live rows and returns the matched row as it is: when \<open>e\<close> is the one live row with the
  fingerprint of the content in the caller's scope, every call that passes validation
  returns \<open>e\<close> and leaves the table alone, whatever title, language, privacy, unlisted
  flag and expiration it asks for, and also when \<open>e\<close> is expired; \<open>GetPaste\<close> then reports
  the returned ID as not found. So there are inputs for which a request for a private
  paste returns a public one, and inputs for which the call returns an expired, not yet
  swept paste instead of storing a new one.
\<close>

theorem CreatePaste_lookup_ignores_request:
  "(passes_validation content isPrivate userID \<and> e \<in> set rows \<and> live e \<and>
    ContentHash e = computeFileHash md5 content \<and> UserID e = userID \<and>
    (\<forall>r \<in> set rows. live r \<and> ContentHash r = computeFileHash md5 content \<and>
        UserID r = userID \<longrightarrow> r = e) \<longrightarrow>
      CreatePaste md5 now rnd title content language isPrivate unlisted expiresIn userID rows
        = Inr (e, rows) \<and>
      (pk_unique rows \<and> expired now e \<longrightarrow>
         GetPaste now (ID e) viewer rows = Inl (New ''paste not found''))) \<and>
   (\<exists>rows' e' now' rnd' title' content' language' unlisted' expiresIn' userID'.
      CreatePaste md5 now' rnd' title' content' language' True unlisted' expiresIn' userID' rows'
        = Inr (e', rows') \<and> \<not> IsPrivate e') \<and>
   (\<exists>rows' e' now' rnd' title' content' language' isPrivate' unlisted' expiresIn' userID'.
      e' \<in> set rows' \<and> live e' \<and> expired now' e' \<and>
      CreatePaste md5 now' rnd' title' content' language' isPrivate' unlisted' expiresIn' userID'
        rows' = Inr (e', rows') \<and>
      (\<forall>viewer'. GetPaste now' (ID e') viewer' rows' = Inl (New ''paste not found'')))"
proof (intro conjI impI)
  assume h: "passes_validation content isPrivate userID \<and> e \<in> set rows \<and> live e \<and>
    ContentHash e = computeFileHash md5 content \<and> UserID e = userID \<and>
    (\<forall>r \<in> set rows. live r \<and> ContentHash r = computeFileHash md5 content \<and>
        UserID r = userID \<longrightarrow> r = e)"
  then show "CreatePaste md5 now rnd title content language isPrivate unlisted expiresIn userID
      rows = Inr (e, rows)"
    by (intro CreatePaste_only_match) simp_all
  assume "pk_unique rows \<and> expired now e"
  with h show "GetPaste now (ID e) viewer rows = Inl (New ''paste not found'')"
    by (simp add: GetPaste_expired)
next
  let ?e = "(sample_row ''abcdefgh'' ''hi'' False None (Some 1))
              \<lparr>ContentHash := computeFileHash md5 ''hi''\<rparr>"
  have "CreatePaste md5 0 sample_rnd [] ''hi'' [] True False None (Some 1) [?e] = Inr (?e, [?e])"
    by (simp add: CreatePaste_def sample_defs)
  moreover have "\<not> IsPrivate ?e" by (simp add: sample_row_def)
  ultimately show "\<exists>rows' e' now' rnd' title' content' language' unlisted' expiresIn' userID'.
      CreatePaste md5 now' rnd' title' content' language' True unlisted' expiresIn' userID' rows'
        = Inr (e', rows') \<and> \<not> IsPrivate e'"
    by blast
next
  let ?e = "(sample_row ''abcdefgh'' ''hi'' False (Some 5) None)
              \<lparr>ContentHash := computeFileHash md5 ''hi''\<rparr>"
  have "?e \<in> set [?e]" and "live ?e" and "expired 10 ?e"
    by (simp_all add: sample_row_def live_def expired_def)
  moreover have "CreatePaste md5 10 sample_rnd [] ''hi'' [] False False None None [?e]
      = Inr (?e, [?e])"
    by (simp add: CreatePaste_def sample_defs)
  moreover have "\<forall>viewer'. GetPaste 10 (ID ?e) viewer' [?e] = Inl (New ''paste not found'')"
    by (simp add: GetPaste_def sample_defs)
  ultimately show "\<exists>rows' e' now' rnd' title' content' language' isPrivate' unlisted' expiresIn'
      userID'.
      e' \<in> set rows' \<and> live e' \<and> expired now' e' \<and>
      CreatePaste md5 now' rnd' title' content' language' isPrivate' unlisted' expiresIn' userID'
        rows' = Inr (e', rows') \<and>
      (\<forall>viewer'. GetPaste now' (ID e') viewer' rows' = Inl (New ''paste not found''))"
    by blast
qed

theorem CreatePaste_lookup_ignores_request_witness:
  "passes_validation ''hi'' True (Some 1) \<and>
   live (sample_row ''abcdefgh'' ''hi'' False (Some 5) (Some 1)) \<and>
   expired 10 (sample_row ''abcdefgh'' ''hi'' False (Some 5) (Some 1)) \<and>
   \<not> IsPrivate (sample_row ''abcdefgh'' ''hi'' False (Some 5) (Some 1)) \<and>
   pk_unique [sample_row ''abcdefgh'' ''hi'' False (Some 5) (Some 1)] \<and>
   CreatePaste sample_md5 10 sample_rnd ''notes'' ''hi'' ''go'' True True (Some 60) (Some 1)
       [sample_row ''abcdefgh'' ''hi'' False (Some 5) (Some 1)]
     = Inr (sample_row ''abcdefgh'' ''hi'' False (Some 5) (Some 1),
            [sample_row ''abcdefgh'' ''hi'' False (Some 5) (Some 1)]) \<and>
   GetPaste 10 ''abcdefgh'' (Some 1) [sample_row ''abcdefgh'' ''hi'' False (Some 5) (Some 1)]
     = Inl (New ''paste not found'')"
proof -
  let ?e = "sample_row ''abcdefgh'' ''hi'' False (Some 5) (Some 1)"
  have valid: "passes_validation ''hi'' True (Some 1)"
    by (simp add: passes_validation_def)
  have e: "?e \<in> set [?e]" "live ?e" "ContentHash ?e = computeFileHash sample_md5 ''hi''"
    "UserID ?e = Some 1" "expired 10 ?e" "\<not> IsPrivate ?e" "ID ?e = ''abcdefgh''"
    by (simp_all add: sample_row_def live_def expired_def)
  have only: "\<forall>r \<in> set [?e]. live r \<and> ContentHash r = computeFileHash sample_md5 ''hi'' \<and>
      UserID r = Some 1 \<longrightarrow> r = ?e"
    by simp
  have pk: "pk_unique [?e]" by (simp add: pk_unique_def)
  note C9 = CreatePaste_lookup_ignores_request
    [where ?md5.0 = sample_md5 and content = "''hi''" and isPrivate = True
       and userID = "Some 1" and e = ?e and rows = "[?e]" and now = 10 and rnd = sample_rnd
       and title = "''notes''" and language = "''go''" and unlisted = True
       and expiresIn = "Some 60" and viewer = "Some 1"]
  from C9 valid e(1-5) only pk
  have "CreatePaste sample_md5 10 sample_rnd ''notes'' ''hi'' ''go'' True True (Some 60) (Some 1)
      [?e] = Inr (?e, [?e]) \<and>
      GetPaste 10 (ID ?e) (Some 1) [?e] = Inl (New ''paste not found'')"
    by blast
  with valid e pk show ?thesis by simp
qed

section \<open>Update does not validate the content\<close>

lemma db_Save_stores:
  assumes "p \<in> set rows" and "live p" and "ID p' = ID p"
  shows "p' \<in> set (db_Save p' rows)"
  using assms by (force simp: db_Save_def)

lemma UpdatePaste_by_owner:
  assumes "pk_unique rows" and "p \<in> set rows" and "live p" and "UserID p = Some userID"
  obtains p' where
    "UpdatePaste md5 now (ID p) title content language unlisted userID rows
       = Inr (p', db_Save p' rows)"
    and "Content p' = content" and "ID p' = ID p" and "p' \<in> set (db_Save p' rows)"
proof -
  let ?p' = "p\<lparr>Title := title, Content := content,
                 ContentHash := computeFileHash md5 content,
                 Language := language, Unlisted := unlisted, UpdatedAt := now\<rparr>"
  from assms have "UpdatePaste md5 now (ID p) title content language unlisted userID rows
      = Inr (?p', db_Save ?p' rows)"
    by (simp add: UpdatePaste_def First_by_ID Let_def)
  moreover have "Content ?p' = content" and "ID ?p' = ID p" by simp_all
  moreover have "?p' \<in> set (db_Save ?p' rows)"
    using assms(2,3) by (intro db_Save_stores) simp_all
  ultimately show ?thesis by (rule that)
qed

lemma UpdatePaste_fails_iff:
  "UpdatePaste md5 now pasteID title content language unlisted userID rows = Inl e \<longleftrightarrow>
     (First (\<lambda>r. ID r = pasteID) rows = None \<and> e = New ''paste not found'') \<or>
     (\<exists>p. First (\<lambda>r. ID r = pasteID) rows = Some p \<and> UserID p \<noteq> Some userID \<and>
          e = New ''you can only edit your own pastes'')"
  by (auto simp: UpdatePaste_def Let_def split: option.splits)

text \<open>
  Claim C10. \<open>UpdatePaste\<close> never looks at the content. For a live paste and its owner it
  succeeds with any content and stores it, the empty content and content above 10 MiB
  included, both of which \<open>CreatePaste\<close> rejects. It fails in two cases only: no live row
  has the ID (not found), or the row found is not owned by the caller.
\<close>

theorem UpdatePaste_no_content_validation:
  "(pk_unique rows \<and> p \<in> set rows \<and> live p \<and> UserID p = Some userID \<longrightarrow>
      (\<exists>p' rows'. UpdatePaste md5 now (ID p) title content language unlisted userID rows
                     = Inr (p', rows') \<and>
                   ID p' = ID p \<and> Content p' = content \<and> p' \<in> set rows')) \<and>
   (content = [] \<or> length content > 10485760 \<longrightarrow>
      (\<exists>e. CreatePaste md5 now rnd title content language isPrivate unlisted expiresIn owner
              rows = Inl e \<and> ValidationError e)) \<and>
   (UpdatePaste md5 now pasteID title content language unlisted userID rows = Inl e \<longleftrightarrow>
      ((\<forall>r \<in> set rows. ID r = pasteID \<longrightarrow> \<not> live r) \<and> e = New ''paste not found'') \<or>
      (\<exists>q. First (\<lambda>r. ID r = pasteID) rows = Some q \<and> UserID q \<noteq> Some userID \<and>
           e = New ''you can only edit your own pastes''))"
proof (intro conjI impI)
  assume "pk_unique rows \<and> p \<in> set rows \<and> live p \<and> UserID p = Some userID"
  then obtain p' where
    "UpdatePaste md5 now (ID p) title content language unlisted userID rows
       = Inr (p', db_Save p' rows)"
    and "Content p' = content" and "ID p' = ID p" and "p' \<in> set (db_Save p' rows)"
    by (blast elim: UpdatePaste_by_owner)
  then show "\<exists>p' rows'. UpdatePaste md5 now (ID p) title content language unlisted userID rows
                     = Inr (p', rows') \<and>
                   ID p' = ID p \<and> Content p' = content \<and> p' \<in> set rows'"
    by blast
next
  assume "content = [] \<or> length content > 10485760"
  then show "\<exists>e. CreatePaste md5 now rnd title content language isPrivate unlisted expiresIn
      owner rows = Inl e \<and> ValidationError e"
    by (auto simp: CreatePaste_rejects(1,2) ValidationError_def)
next
  have "First (\<lambda>r. ID r = pasteID) rows = None \<longleftrightarrow>
      (\<forall>r \<in> set rows. ID r = pasteID \<longrightarrow> \<not> live r)"
    by (simp add: First_None_iff)
  then show "UpdatePaste md5 now pasteID title content language unlisted userID rows = Inl e
      \<longleftrightarrow>
      ((\<forall>r \<in> set rows. ID r = pasteID \<longrightarrow> \<not> live r) \<and> e = New ''paste not found'') \<or>
      (\<exists>q. First (\<lambda>r. ID r = pasteID) rows = Some q \<and> UserID q \<noteq> Some userID \<and>
           e = New ''you can only edit your own pastes'')"
    by (simp add: UpdatePaste_fails_iff)
qed

theorem UpdatePaste_no_content_validation_witness:
  "pk_unique [sample_row ''abcdefgh'' ''old'' False None (Some 1)] \<and>
   live (sample_row ''abcdefgh'' ''old'' False None (Some 1)) \<and>
   UpdatePaste sample_md5 7 ''abcdefgh'' [] [] [] False 1
       [sample_row ''abcdefgh'' ''old'' False None (Some 1)]
     = Inr (\<lparr>ID = ''abcdefgh'', Title = [], Content = [],
              ContentHash = computeFileHash sample_md5 [], Language = [],
              IsPrivate = False, Unlisted = False, ExpiresAt = None, UserID = Some 1,
              CreatedAt = 0, UpdatedAt = 7, DeletedAt = None\<rparr>,
            [\<lparr>ID = ''abcdefgh'', Title = [], Content = [],
              ContentHash = computeFileHash sample_md5 [], Language = [],
              IsPrivate = False, Unlisted = False, ExpiresAt = None, UserID = Some 1,
              CreatedAt = 0, UpdatedAt = 7, DeletedAt = None\<rparr>]) \<and>
   (\<exists>p' rows'. UpdatePaste sample_md5 7 ''abcdefgh'' [] (replicate 10485761 (CHR ''a'')) []
                  False 1 [sample_row ''abcdefgh'' ''old'' False None (Some 1)]
                  = Inr (p', rows') \<and>
                length (Content p') = 10485761 \<and> p' \<in> set rows') \<and>
   (\<exists>e. CreatePaste sample_md5 7 sample_rnd [] [] [] False False None (Some 1)
            [sample_row ''abcdefgh'' ''old'' False None (Some 1)] = Inl e \<and>
        ValidationError e) \<and>
   UpdatePaste sample_md5 7 ''abcdefgh'' [] ''x'' [] False 2
       [sample_row ''abcdefgh'' ''old'' False None (Some 1)]
     = Inl (New ''you can only edit your own pastes'')"
proof -
  let ?p = "sample_row ''abcdefgh'' ''old'' False None (Some 1)"
  have pre: "pk_unique [?p]" "?p \<in> set [?p]" "live ?p" "UserID ?p = Some 1"
    and id: "ID ?p = ''abcdefgh''"
    by (simp_all add: sample_row_def live_def pk_unique_def)
  have empty: "UpdatePaste sample_md5 7 ''abcdefgh'' [] [] [] False 1 [?p]
      = Inr (\<lparr>ID = ''abcdefgh'', Title = [], Content = [],
              ContentHash = computeFileHash sample_md5 [], Language = [],
              IsPrivate = False, Unlisted = False, ExpiresAt = None, UserID = Some 1,
              CreatedAt = 0, UpdatedAt = 7, DeletedAt = None\<rparr>,
            [\<lparr>ID = ''abcdefgh'', Title = [], Content = [],
              ContentHash = computeFileHash sample_md5 [], Language = [],
              IsPrivate = False, Unlisted = False, ExpiresAt = None, UserID = Some 1,
              CreatedAt = 0, UpdatedAt = 7, DeletedAt = None\<rparr>])"
    by (simp add: UpdatePaste_def db_Save_def sample_defs)
  note C10 = UpdatePaste_no_content_validation
    [where rows = "[?p]" and p = ?p and userID = 1 and ?md5.0 = sample_md5 and now = 7
       and title = "[]" and language = "[]" and unlisted = False
       and rnd = sample_rnd and isPrivate = False and expiresIn = None and owner = "Some 1"]
  from C10 [where content = "replicate 10485761 (CHR ''a'')" and pasteID = "[]"
              and e = StoreError] pre
  obtain p' rows' where
    "UpdatePaste sample_md5 7 (ID ?p) [] (replicate 10485761 (CHR ''a'')) [] False 1 [?p]
       = Inr (p', rows')"
    and "Content p' = replicate 10485761 (CHR ''a'')" and "p' \<in> set rows'"
    by blast
  with id have large: "\<exists>p' rows'.
      UpdatePaste sample_md5 7 ''abcdefgh'' [] (replicate 10485761 (CHR ''a'')) [] False 1 [?p]
        = Inr (p', rows') \<and>
      length (Content p') = 10485761 \<and> p' \<in> set rows'"
    by auto
  from C10 [where content = "[]" and pasteID = "[]" and e = StoreError]
  have create: "\<exists>e. CreatePaste sample_md5 7 sample_rnd [] [] [] False False None (Some 1) [?p]
      = Inl e \<and> ValidationError e"
    by blast
  have other: "UpdatePaste sample_md5 7 ''abcdefgh'' [] ''x'' [] False 2 [?p]
      = Inl (New ''you can only edit your own pastes'')"
    by (simp add: UpdatePaste_def sample_defs)
  from pre empty large create other show ?thesis by blast
qed

end
